theory Spec2Isabelle
  imports Main
begin

section \<open>Values, dictionaries and errors\<close>

text \<open>
  The database client of \<^verbatim>\<open>src/core/database.py\<close> exchanges Python dictionaries of
  JSON values with the store.  A timestamp is modelled by its instant (a natural number
  of microseconds): Python sends the ISO-8601 text of \<^verbatim>\<open>datetime.now(timezone.utc)\<close>
  and PostgreSQL stores and compares it as \<^verbatim>\<open>TIMESTAMPTZ\<close>.
\<close>

type_synonym timestamp = nat

datatype jval =
    JNull
  | JBool bool
  | JInt int
  | JStr string
  | JTime timestamp
  | JList "jval list"
  | JDict "string \<Rightarrow> jval option"

type_synonym dict = "string \<Rightarrow> jval option"

text \<open>
  Python's truth value of an object, as used by \<^verbatim>\<open>if x\<close>, \<^verbatim>\<open>not x\<close> and
  \<^verbatim>\<open>x and y\<close>: \<^verbatim>\<open>None\<close>, \<^verbatim>\<open>False\<close>, \<^verbatim>\<open>0\<close>, the empty string, the empty
  list and the empty dictionary are false.  A timestamp is a non-empty string.
\<close>

fun truthy :: "jval \<Rightarrow> bool" where
  "truthy JNull = False"
| "truthy (JBool b) = b"
| "truthy (JInt i) = (i \<noteq> 0)"
| "truthy (JStr s) = (s \<noteq> [])"
| "truthy (JTime t) = True"
| "truthy (JList xs) = (xs \<noteq> [])"
| "truthy (JDict d) = (d \<noteq> Map.empty)"

text \<open>\<^verbatim>\<open>d.get(k)\<close>: the value at \<open>k\<close>, or \<^verbatim>\<open>None\<close> when the key is missing.\<close>

definition dict_get :: "dict \<Rightarrow> string \<Rightarrow> jval" where
  "dict_get d k = (case d k of None \<Rightarrow> JNull | Some v \<Rightarrow> v)"

text \<open>An optional string argument as a JSON value.\<close>

definition jopt :: "string option \<Rightarrow> jval" where
  "jopt s = (case s of None \<Rightarrow> JNull | Some x \<Rightarrow> JStr x)"

text \<open>
  The exceptions raised by the modelled code: \<^verbatim>\<open>ValueError(message)\<close> in the database
  client, \<^verbatim>\<open>KeyError(key)\<close> of a subscript \<^verbatim>\<open>d[key]\<close> on a missing key, and
  \<^verbatim>\<open>HTTPException(status_code, detail)\<close> in the API layer.
\<close>

datatype error = ValueError string | KeyError string | HTTPException nat string

text \<open>
  The failure classes of the specification, as the messages the code raises:
  an unknown task or insight is \<open>NotFound\<close>, the two guards of the transition to DONE are
  \<open>PreconditionFailed\<close>, the guard of the promotion endpoint is \<open>Unauthorized\<close>.
\<close>

definition NotFound_task :: "string \<Rightarrow> error" where
  "NotFound_task task_id = ValueError (''Task '' @ task_id @ '' not found'')"

definition NotFound_insight :: "string \<Rightarrow> error" where
  "NotFound_insight insight_id = ValueError (''Insight '' @ insight_id @ '' not found'')"

definition PreconditionFailed_deliverable :: error where
  "PreconditionFailed_deliverable =
     ValueError ''Cannot mark task DONE without at least one deliverable''"

definition PreconditionFailed_approval :: error where
  "PreconditionFailed_approval = ValueError ''Task requires approval before marking DONE''"

definition Unauthorized_promote :: error where
  "Unauthorized_promote = HTTPException 403 ''Only Jarvis can promote insights to tasks''"

definition PreconditionFailed :: "error \<Rightarrow> bool" where
  "PreconditionFailed e =
     (e = PreconditionFailed_deliverable \<or> e = PreconditionFailed_approval)"


section \<open>The store\<close>

text \<open>
  The tables of \<^verbatim>\<open>src/migrations/001_initial_schema.py\<close> that the modelled operations
  touch.  A task row is a dictionary, because \<^verbatim>\<open>update_task\<close> patches it with an
  arbitrary \<^verbatim>\<open>**updates\<close> dictionary; a column that a row does not carry is SQL
  \<^verbatim>\<open>NULL\<close>, which is what \<^verbatim>\<open>row.get(column)\<close> returns for both.  The rows of the
  other tables are written with a fixed shape and are records of the columns the client
  writes.

  Each table is the list of its rows in insertion order.  The store is taken to accept
  every write: connectivity failures and constraint violations (primary keys of freshly
  drawn \<^verbatim>\<open>uuid4\<close> identifiers, foreign keys, \<^verbatim>\<open>NOT NULL\<close>) are outside the model.
  There is no transaction around an operation, so every operation returns the store it
  leaves behind, also when it raises.
\<close>

record deliverable =
  d_id :: string
  d_task_id :: string
  d_title :: string
  d_content :: string
  d_content_type :: string
  d_created_by :: string
  d_is_final :: bool
  d_created_at :: timestamp

record insight =
  i_id :: string
  i_task_id :: "string option"
  i_agent :: string
  i_content :: string
  i_insight_type :: string
  i_promoted_to_task_id :: jval
  i_promoted_at :: "timestamp option"
  i_created_at :: timestamp

record audit_entry =
  a_id :: string
  a_event_type :: string
  a_entity_type :: string
  a_entity_id :: string
  a_actor :: string
  a_actor_type :: string
  a_old_value :: "dict option"
  a_new_value :: "dict option"
  a_metadata :: dict
  a_created_at :: timestamp

record event =
  e_id :: string
  e_event_type :: string
  e_payload :: dict
  e_processed :: bool
  e_created_at :: timestamp

record autonomy_session =
  s_id :: string
  s_mode :: string
  s_granted_by :: string
  s_granted_to :: "string option"
  s_reason :: "string option"
  s_starts_at :: timestamp
  s_expires_at :: timestamp
  s_revoked_at :: "timestamp option"
  s_created_at :: timestamp

record db =
  workforce_tasks :: "dict list"
  workforce_deliverables :: "deliverable list"
  workforce_insights :: "insight list"
  workforce_audit_log :: "audit_entry list"
  workforce_events :: "event list"
  workforce_autonomy_sessions :: "autonomy_session list"

text \<open>
  What an operation draws from outside: one \<^verbatim>\<open>str(uuid4())\<close> and one reading of the
  clock.  \<^verbatim>\<open>_log_audit\<close> and \<^verbatim>\<open>_create_event\<close> draw one such pair each.
\<close>

record fresh =
  uuid4 :: string
  utcnow :: timestamp


section \<open>Audit ledger and event emitter\<close>

text \<open>
  \<^verbatim>\<open>WorkforceDB._log_audit\<close> and \<^verbatim>\<open>WorkforceDB._create_event\<close> (an Isabelle name
  cannot start with an underscore).  \<^verbatim>\<open>metadata or {}\<close> is the empty dictionary when
  \<open>metadata\<close> is \<^verbatim>\<open>None\<close> or empty.
\<close>

definition log_audit ::
  "fresh \<Rightarrow> string \<Rightarrow> string \<Rightarrow> string \<Rightarrow> string \<Rightarrow> string \<Rightarrow>
   dict option \<Rightarrow> dict option \<Rightarrow> dict option \<Rightarrow> db \<Rightarrow> db" where
  "log_audit fr event_type entity_type entity_id actor actor_type old_value new_value metadata s =
     s\<lparr>workforce_audit_log := workforce_audit_log s @
         [\<lparr>a_id = uuid4 fr,
           a_event_type = event_type,
           a_entity_type = entity_type,
           a_entity_id = entity_id,
           a_actor = actor,
           a_actor_type = actor_type,
           a_old_value = old_value,
           a_new_value = new_value,
           a_metadata = (case metadata of None \<Rightarrow> Map.empty | Some m \<Rightarrow> m),
           a_created_at = utcnow fr\<rparr>]\<rparr>"

definition create_event :: "fresh \<Rightarrow> string \<Rightarrow> dict \<Rightarrow> db \<Rightarrow> db" where
  "create_event fr event_type payload s =
     s\<lparr>workforce_events := workforce_events s @
         [\<lparr>e_id = uuid4 fr,
           e_event_type = event_type,
           e_payload = payload,
           e_processed = False,
           e_created_at = utcnow fr\<rparr>]\<rparr>"


section \<open>Tasks and deliverables\<close>

text \<open>
  The values of \<^verbatim>\<open>class TaskStatus(Enum)\<close>, the statuses of the task lifecycle; the
  API admits no other status in a patch.
\<close>

definition TaskStatus_values :: "string list" where
  "TaskStatus_values =
     [''BACKLOG'', ''IN_PROGRESS'', ''NEEDS_REVIEW'', ''DONE'', ''BLOCKED'', ''CANCELLED'']"

text \<open>
  \<^verbatim>\<open>get_task\<close>: the first row whose \<open>id\<close> is the given one, or \<^verbatim>\<open>None\<close>.
  \<^verbatim>\<open>get_deliverables\<close>: the deliverables of a task.  The source orders them by
  \<open>created_at\<close>; the model keeps the table's order, which is the order of insertion.
\<close>

definition has_id :: "string \<Rightarrow> dict \<Rightarrow> bool" where
  "has_id task_id row = (row ''id'' = Some (JStr task_id))"

definition get_task :: "db \<Rightarrow> string \<Rightarrow> dict option" where
  "get_task s task_id =
     (case filter (has_id task_id) (workforce_tasks s) of [] \<Rightarrow> None | row # _ \<Rightarrow> Some row)"

definition get_deliverables :: "db \<Rightarrow> string \<Rightarrow> deliverable list" where
  "get_deliverables s task_id = filter (\<lambda>d. d_task_id d = task_id) (workforce_deliverables s)"

text \<open>
  \<^verbatim>\<open>table("workforce_tasks").update(updates).eq("id", task_id)\<close>: every row with that id
  takes the values of the patch; the trigger \<^verbatim>\<open>tasks_updated_at\<close> of the schema then
  sets \<open>updated_at\<close> to the store's own clock.  The updated rows are returned.
\<close>

definition patch_row :: "timestamp \<Rightarrow> dict \<Rightarrow> dict \<Rightarrow> dict" where
  "patch_row trigger_now updates row = (row ++ updates)(''updated_at'' \<mapsto> JTime trigger_now)"

definition update_rows :: "timestamp \<Rightarrow> dict \<Rightarrow> string \<Rightarrow> db \<Rightarrow> dict list \<times> db" where
  "update_rows trigger_now updates task_id s =
     (map (patch_row trigger_now updates) (filter (has_id task_id) (workforce_tasks s)),
      s\<lparr>workforce_tasks :=
          map (\<lambda>row. if has_id task_id row then patch_row trigger_now updates row else row)
            (workforce_tasks s)\<rparr>)"

text \<open>
  What \<^verbatim>\<open>update_task\<close> draws from outside: its clock reading for \<open>updated_at\<close>, the
  store's clock in the trigger, and the pairs of its audit entry and its event.
\<close>

record update_env =
  upd_now :: timestamp
  upd_trigger_now :: timestamp
  upd_audit :: fresh
  upd_event :: fresh

definition agent_actors :: "string list" where
  "agent_actors =
     [''jarvis'', ''chief_of_staff'', ''ops_tracker'', ''distribution'', ''researcher'', ''system'']"

text \<open>
  \<^verbatim>\<open>WorkforceDB.update_task(task_id, actor, **updates)\<close>.  A row found by its id
  carries that id, so \<^verbatim>\<open>not current\<close> holds only for \<^verbatim>\<open>None\<close>.  The audit entry's
  \<open>old_value\<close> is \<^verbatim>\<open>{k: current.get(k) for k in updates.keys()}\<close>, taken after
  \<open>updated_at\<close> was added to the patch.
\<close>

definition update_task ::
  "update_env \<Rightarrow> string \<Rightarrow> string \<Rightarrow> dict \<Rightarrow> db \<Rightarrow> (error + dict option) \<times> db" where
  "update_task env task_id actor updates s =
     (case get_task s task_id of
        None \<Rightarrow> (Inl (NotFound_task task_id), s)
      | Some current \<Rightarrow>
          let old_status = dict_get current ''status'';
              new_status = dict_get updates ''status''
          in
          if new_status = JStr ''DONE'' \<and> old_status \<noteq> JStr ''DONE''
             \<and> get_deliverables s task_id = []
          then (Inl PreconditionFailed_deliverable, s)
          else if new_status = JStr ''DONE'' \<and> old_status \<noteq> JStr ''DONE''
             \<and> truthy (dict_get current ''requires_approval'')
             \<and> \<not> truthy (dict_get current ''approved_by'')
          then (Inl PreconditionFailed_approval, s)
          else
            let updates1 = updates(''updated_at'' \<mapsto> JTime (upd_now env));
                (data, s1) = update_rows (upd_trigger_now env) updates1 task_id s;
                s2 = log_audit (upd_audit env) ''TASK_UPDATED'' ''task'' task_id actor
                       (if actor \<in> set agent_actors then ''agent'' else ''human'')
                       (Some (\<lambda>k. case updates1 k of None \<Rightarrow> None
                                   | Some _ \<Rightarrow> Some (dict_get current k)))
                       (Some updates1) None s1;
                s3 = (if truthy new_status \<and> new_status \<noteq> old_status
                      then create_event (upd_event env) ''STATUS_CHANGED''
                             [''task_id'' \<mapsto> JStr task_id,
                              ''old_status'' \<mapsto> old_status,
                              ''new_status'' \<mapsto> new_status] s2
                      else s2)
            in (Inr (case data of [] \<Rightarrow> None | row # _ \<Rightarrow> Some row), s3))"


text \<open>
  \<^verbatim>\<open>WorkforceDB.create_task\<close>.  The record \<open>task_args\<close> holds its keyword arguments and
  \<open>task_defaults\<close> their default values; \<^verbatim>\<open>tags or []\<close> and \<^verbatim>\<open>external_refs or {}\<close>
  replace \<^verbatim>\<open>None\<close> by the empty list and dictionary.  The insert returns the inserted
  row, which is what \<^verbatim>\<open>result.data[0]\<close> is.
\<close>

record task_args =
  f_title :: string
  f_description :: "string option"
  f_owner_agent :: "string option"
  f_assigned_by :: string
  f_priority :: string
  f_tags :: "string list option"
  f_source :: string
  f_requires_approval :: bool
  f_parent_task_id :: "string option"
  f_due_at :: "string option"
  f_external_refs :: "dict option"
  f_impact_score :: "int option"
  f_effort_estimate :: "string option"

definition task_defaults :: "string \<Rightarrow> task_args" where
  "task_defaults title =
     \<lparr>f_title = title, f_description = None, f_owner_agent = None, f_assigned_by = ''system'',
      f_priority = ''P2'', f_tags = None, f_source = ''api'', f_requires_approval = False,
      f_parent_task_id = None, f_due_at = None, f_external_refs = None, f_impact_score = None,
      f_effort_estimate = None\<rparr>"

record create_env =
  crt_task_id :: string
  crt_now :: timestamp
  crt_audit :: fresh
  crt_event :: fresh

definition task_data :: "string \<Rightarrow> timestamp \<Rightarrow> task_args \<Rightarrow> dict" where
  "task_data task_id now a =
     [''id'' \<mapsto> JStr task_id,
      ''title'' \<mapsto> JStr (f_title a),
      ''description'' \<mapsto> jopt (f_description a),
      ''owner_agent'' \<mapsto> jopt (f_owner_agent a),
      ''assigned_by'' \<mapsto> JStr (f_assigned_by a),
      ''status'' \<mapsto> JStr ''BACKLOG'',
      ''priority'' \<mapsto> JStr (f_priority a),
      ''tags'' \<mapsto> JList (map JStr (case f_tags a of None \<Rightarrow> [] | Some ts \<Rightarrow> ts)),
      ''source'' \<mapsto> JStr (f_source a),
      ''requires_approval'' \<mapsto> JBool (f_requires_approval a),
      ''parent_task_id'' \<mapsto> jopt (f_parent_task_id a),
      ''due_at'' \<mapsto> jopt (f_due_at a),
      ''external_refs'' \<mapsto> JDict (case f_external_refs a of None \<Rightarrow> Map.empty | Some d \<Rightarrow> d),
      ''impact_score'' \<mapsto> (case f_impact_score a of None \<Rightarrow> JNull | Some i \<Rightarrow> JInt i),
      ''effort_estimate'' \<mapsto> jopt (f_effort_estimate a),
      ''created_at'' \<mapsto> JTime now,
      ''updated_at'' \<mapsto> JTime now]"

definition create_task :: "create_env \<Rightarrow> task_args \<Rightarrow> db \<Rightarrow> dict \<times> db" where
  "create_task env a s =
     (let task_id = crt_task_id env;
          row = task_data task_id (crt_now env) a;
          s1 = s\<lparr>workforce_tasks := workforce_tasks s @ [row]\<rparr>;
          s2 = log_audit (crt_audit env) ''TASK_CREATED'' ''task'' task_id (f_assigned_by a)
                 (if f_assigned_by a \<in> set [''jarvis'', ''system''] then ''agent'' else ''human'')
                 None (Some row) None s1;
          s3 = create_event (crt_event env) ''TASK_CREATED''
                 [''task_id'' \<mapsto> JStr task_id,
                  ''owner_agent'' \<mapsto> jopt (f_owner_agent a),
                  ''priority'' \<mapsto> JStr (f_priority a)] s2
      in (row, s3))"

text \<open>
  \<^verbatim>\<open>WorkforceDB.add_deliverable\<close> and \<^verbatim>\<open>WorkforceDB.add_insight\<close>: one pair for the
  new row and one for its audit entry.
\<close>

record add_env =
  add_row :: fresh
  add_audit :: fresh

definition add_deliverable ::
  "add_env \<Rightarrow> string \<Rightarrow> string \<Rightarrow> string \<Rightarrow> string \<Rightarrow> string \<Rightarrow> bool \<Rightarrow> db
   \<Rightarrow> deliverable \<times> db" where
  "add_deliverable env task_id title content created_by content_type is_final s =
     (let deliverable_id = uuid4 (add_row env);
          data = \<lparr>d_id = deliverable_id, d_task_id = task_id, d_title = title,
                  d_content = content, d_content_type = content_type,
                  d_created_by = created_by, d_is_final = is_final,
                  d_created_at = utcnow (add_row env)\<rparr>;
          s1 = s\<lparr>workforce_deliverables := workforce_deliverables s @ [data]\<rparr>;
          s2 = log_audit (add_audit env) ''DELIVERABLE_ADDED'' ''deliverable'' deliverable_id
                 created_by ''agent'' None
                 (Some [''task_id'' \<mapsto> JStr task_id, ''title'' \<mapsto> JStr title]) None s1
      in (data, s2))"

definition add_insight ::
  "add_env \<Rightarrow> string \<Rightarrow> string \<Rightarrow> string option \<Rightarrow> string \<Rightarrow> db \<Rightarrow> insight \<times> db" where
  "add_insight env agent content task_id insight_type s =
     (let insight_id = uuid4 (add_row env);
          data = \<lparr>i_id = insight_id, i_task_id = task_id, i_agent = agent,
                  i_content = content, i_insight_type = insight_type,
                  i_promoted_to_task_id = JNull, i_promoted_at = None,
                  i_created_at = utcnow (add_row env)\<rparr>;
          s1 = s\<lparr>workforce_insights := workforce_insights s @ [data]\<rparr>;
          s2 = log_audit (add_audit env) ''INSIGHT_ADDED'' ''insight'' insight_id agent ''agent''
                 None (Some [''task_id'' \<mapsto> jopt task_id, ''type'' \<mapsto> JStr insight_type])
                 None s1
      in (data, s2))"


section \<open>Insight promotion\<close>

text \<open>
  \<^verbatim>\<open>WorkforceDB.promote_insight_to_task\<close>.  The title is the f-string
  \<^verbatim>\<open>"[From Insight] {content[:100]}"\<close>; the slice is the first hundred characters.
  \<^verbatim>\<open>task["id"]\<close> raises \<^verbatim>\<open>KeyError\<close> on a row without the key.
\<close>

record promote_env =
  pro_create :: create_env
  pro_now :: timestamp

definition promote_insight_to_task ::
  "promote_env \<Rightarrow> string \<Rightarrow> string \<Rightarrow> db \<Rightarrow> (error + dict) \<times> db" where
  "promote_insight_to_task env insight_id promoted_by s =
     (case filter (\<lambda>i. i_id i = insight_id) (workforce_insights s) of
        [] \<Rightarrow> (Inl (NotFound_insight insight_id), s)
      | insight_data # _ \<Rightarrow>
          let (task, s1) =
                create_task (pro_create env)
                  ((task_defaults (''[From Insight] '' @ take 100 (i_content insight_data)))
                     \<lparr>f_description := Some (i_content insight_data),
                      f_assigned_by := promoted_by,
                      f_source := ''insight_promotion''\<rparr>) s
          in (case task ''id'' of
                None \<Rightarrow> (Inl (KeyError ''id''), s1)
              | Some new_id \<Rightarrow>
                  (Inr task,
                   s1\<lparr>workforce_insights :=
                        map (\<lambda>i. if i_id i = insight_id
                                  then i\<lparr>i_promoted_to_task_id := new_id,
                                         i_promoted_at := Some (pro_now env)\<rparr>
                                  else i)
                          (workforce_insights s1)\<rparr>)))"

text \<open>
  The endpoint \<^verbatim>\<open>POST /insights/{insight_id}/promote\<close> of \<^verbatim>\<open>src/api/main.py\<close>: the
  actor of the request header is checked before the database client is called.
\<close>

definition promote_insight ::
  "promote_env \<Rightarrow> string \<Rightarrow> string \<Rightarrow> db \<Rightarrow> (error + dict) \<times> db" where
  "promote_insight env insight_id actor s =
     (if actor \<noteq> ''jarvis'' then (Inl Unauthorized_promote, s)
      else promote_insight_to_task env insight_id actor s)"


section \<open>Approval\<close>

text \<open>
  \<^verbatim>\<open>WorkforceDB.approve_task\<close> and \<^verbatim>\<open>WorkforceDB.reject_task\<close>: an update through
  \<^verbatim>\<open>update_task\<close>, whose exception propagates, followed by an audit entry of their own.
\<close>

record approve_env =
  apr_now :: timestamp
  apr_update :: update_env
  apr_audit :: fresh

definition approve_task ::
  "approve_env \<Rightarrow> string \<Rightarrow> string \<Rightarrow> db \<Rightarrow> (error + dict option) \<times> db" where
  "approve_task env task_id approved_by s =
     (let now = apr_now env in
      case update_task (apr_update env) task_id approved_by
             [''approved_by'' \<mapsto> JStr approved_by, ''approved_at'' \<mapsto> JTime now] s of
        (Inl e, s1) \<Rightarrow> (Inl e, s1)
      | (Inr result, s1) \<Rightarrow>
          (Inr result,
           log_audit (apr_audit env) ''HUMAN_APPROVED'' ''task'' task_id approved_by ''human''
             None (Some [''approved_at'' \<mapsto> JTime now]) None s1))"

record reject_env =
  rej_update :: update_env
  rej_audit :: fresh

definition reject_task ::
  "reject_env \<Rightarrow> string \<Rightarrow> string \<Rightarrow> string option \<Rightarrow> db \<Rightarrow> (error + dict option) \<times> db" where
  "reject_task env task_id rejected_by reason s =
     (case update_task (rej_update env) task_id rejected_by
             [''status'' \<mapsto> JStr ''BACKLOG'', ''approved_by'' \<mapsto> JNull,
              ''approved_at'' \<mapsto> JNull] s of
        (Inl e, s1) \<Rightarrow> (Inl e, s1)
      | (Inr result, s1) \<Rightarrow>
          (Inr result,
           log_audit (rej_audit env) ''HUMAN_REJECTED'' ''task'' task_id rejected_by ''human''
             None None (Some [''reason'' \<mapsto> jopt reason]) s1))"


section \<open>Autonomy resolution\<close>

text \<open>
  \<^verbatim>\<open>WorkforceDB.get_current_autonomy_mode\<close>.  The query keeps the sessions with
  \<^verbatim>\<open>starts_at < now\<close> (\<^verbatim>\<open>lt\<close>), \<^verbatim>\<open>expires_at > now\<close> (\<^verbatim>\<open>gt\<close>) and
  \<^verbatim>\<open>revoked_at IS NULL\<close>.  When \<^verbatim>\<open>agent_id\<close> is true (given and not empty) it also
  hands the text \<^verbatim>\<open>f"granted_to.eq.{agent_id},granted_to.is.null"\<close> to \<^verbatim>\<open>or_\<close>; the
  agent id is spliced into the text as it is.  The rows are ordered by \<open>created_at\<close>,
  latest first, and the first one is taken.  SQL leaves the order of rows with equal
  \<open>created_at\<close> open; the model takes the one inserted last.

  The store that reads the filter text is not part of the repository.  The resolver
  therefore takes the store's reading as a parameter \<open>or_filter\<close>, which says of a filter
  text and a row whether the row passes.
\<close>

definition order_desc :: "('a \<Rightarrow> 'k::linorder) \<Rightarrow> 'a list \<Rightarrow> 'a list" where
  "order_desc key rows = rev (sort_key key rows)"

definition active_at :: "timestamp \<Rightarrow> autonomy_session \<Rightarrow> bool" where
  "active_at now x = (s_starts_at x < now \<and> now < s_expires_at x \<and> s_revoked_at x = None)"

definition or_filter_text :: "string \<Rightarrow> string" where
  "or_filter_text agent_id = ''granted_to.eq.'' @ agent_id @ '',granted_to.is.null''"

definition autonomy_query ::
  "(string \<Rightarrow> autonomy_session \<Rightarrow> bool) \<Rightarrow> timestamp \<Rightarrow> string option \<Rightarrow> db
   \<Rightarrow> autonomy_session list" where
  "autonomy_query or_filter now agent_id s =
     (let query = filter (active_at now) (workforce_autonomy_sessions s)
      in case agent_id of
           None \<Rightarrow> query
         | Some a \<Rightarrow> if a \<noteq> [] then filter (or_filter (or_filter_text a)) query else query)"

definition get_current_autonomy_mode ::
  "(string \<Rightarrow> autonomy_session \<Rightarrow> bool) \<Rightarrow> timestamp \<Rightarrow> string option \<Rightarrow> db \<Rightarrow> string" where
  "get_current_autonomy_mode or_filter now agent_id s =
     (case take 1 (order_desc s_created_at (autonomy_query or_filter now agent_id s)) of
        [] \<Rightarrow> ''advisory''
      | x # _ \<Rightarrow> s_mode x)"

text \<open>
  A reading of the filter text, used where a concrete store is needed: the conditions are
  the parts between commas and a row passes when one of them holds; the condition
  \<^verbatim>\<open>granted_to.is.null\<close> holds of a session granted to nobody and
  \<^verbatim>\<open>granted_to.eq.v\<close> of a session granted to \<open>v\<close>.
\<close>

fun split_on :: "char \<Rightarrow> string \<Rightarrow> string list" where
  "split_on c [] = [[]]"
| "split_on c (x # xs) =
     (if x = c then [] # split_on c xs
      else (case split_on c xs of [] \<Rightarrow> [[x]] | part # parts \<Rightarrow> (x # part) # parts))"

fun strip_prefix :: "string \<Rightarrow> string \<Rightarrow> string option" where
  "strip_prefix [] ys = Some ys"
| "strip_prefix (x # xs) [] = None"
| "strip_prefix (x # xs) (y # ys) = (if x = y then strip_prefix xs ys else None)"

definition condition_holds :: "string \<Rightarrow> autonomy_session \<Rightarrow> bool" where
  "condition_holds condition x =
     (if condition = ''granted_to.is.null'' then s_granted_to x = None
      else (case strip_prefix ''granted_to.eq.'' condition of
              None \<Rightarrow> False
            | Some v \<Rightarrow> s_granted_to x = Some v))"

definition comma_or_filter :: "string \<Rightarrow> autonomy_session \<Rightarrow> bool" where
  "comma_or_filter filter_text x =
     list_ex (\<lambda>condition. condition_holds condition x) (split_on CHR '','' filter_text)"

text \<open>
  \<^verbatim>\<open>WorkforceDB.grant_autonomy\<close>.  The session starts and is created at the clock
  reading \<open>now\<close> and expires \<^verbatim>\<open>timedelta(minutes=duration_minutes)\<close> later, that is
  \<open>duration_minutes\<close> times sixty million microseconds; \<open>revoked_at\<close> is not written and
  stays \<^verbatim>\<open>NULL\<close>.  The API admits durations from 1 to 480 minutes.
\<close>

definition grant_autonomy ::
  "add_env \<Rightarrow> string \<Rightarrow> string \<Rightarrow> int \<Rightarrow> string option \<Rightarrow> string option \<Rightarrow> db
   \<Rightarrow> autonomy_session \<times> db" where
  "grant_autonomy env mode granted_by duration_minutes granted_to reason s =
     (let now = utcnow (add_row env);
          expires = nat (int now + duration_minutes * 60000000);
          data = \<lparr>s_id = uuid4 (add_row env), s_mode = mode, s_granted_by = granted_by,
                  s_granted_to = granted_to, s_reason = reason, s_starts_at = now,
                  s_expires_at = expires, s_revoked_at = None, s_created_at = now\<rparr>;
          s1 = s\<lparr>workforce_autonomy_sessions := workforce_autonomy_sessions s @ [data]\<rparr>;
          s2 = log_audit (add_audit env) ''AUTONOMY_MODE_CHANGED'' ''autonomy'' (s_id data)
                 granted_by ''human'' None
                 (Some [''mode'' \<mapsto> JStr mode, ''duration_minutes'' \<mapsto> JInt duration_minutes])
                 None s1
      in (data, s2))"

text \<open>
  The resolver as the specification words it, for comparison with the code: the sessions
  considered are those with \<open>now\<close> in \<open>[starts_at, expires_at)\<close>, not revoked, and global
  or granted to the agent when an agent is given; the latest \<open>created_at\<close> wins and the
  default is advisory.
\<close>

definition spec_considered :: "timestamp \<Rightarrow> string option \<Rightarrow> autonomy_session \<Rightarrow> bool" where
  "spec_considered now agent_id x =
     (s_starts_at x \<le> now \<and> now < s_expires_at x \<and> s_revoked_at x = None
      \<and> (case agent_id of None \<Rightarrow> True
          | Some a \<Rightarrow> s_granted_to x = None \<or> s_granted_to x = Some a))"

definition spec_CurrentMode :: "timestamp \<Rightarrow> string option \<Rightarrow> db \<Rightarrow> string" where
  "spec_CurrentMode now agent_id s =
     (case order_desc s_created_at
             (filter (spec_considered now agent_id) (workforce_autonomy_sessions s)) of
        [] \<Rightarrow> ''advisory''
      | x # _ \<Rightarrow> s_mode x)"


section \<open>Example stores\<close>

text \<open>
  Concrete stores and drawn values on which the theorems below are instantiated.
\<close>

definition example_task :: dict where
  "example_task = task_data ''t1'' 100 (task_defaults ''Write report'')"

definition example_store :: db where
  "example_store =
     \<lparr>workforce_tasks = [example_task], workforce_deliverables = [], workforce_insights = [],
      workforce_audit_log = [], workforce_events = [], workforce_autonomy_sessions = []\<rparr>"

definition example_update_env :: update_env where
  "example_update_env =
     \<lparr>upd_now = 200, upd_trigger_now = 201,
      upd_audit = \<lparr>uuid4 = ''a1'', utcnow = 202\<rparr>,
      upd_event = \<lparr>uuid4 = ''e1'', utcnow = 203\<rparr>\<rparr>"

definition example_add_env :: add_env where
  "example_add_env =
     \<lparr>add_row = \<lparr>uuid4 = ''d1'', utcnow = 150\<rparr>, add_audit = \<lparr>uuid4 = ''a0'', utcnow = 151\<rparr>\<rparr>"

definition example_delivered_store :: db where
  "example_delivered_store =
     snd (add_deliverable example_add_env ''t1'' ''Report'' ''The report.'' ''researcher''
            ''text'' True example_store)"

definition example_gated_task :: dict where
  "example_gated_task =
     task_data ''t2'' 100 ((task_defaults ''Ship release'')\<lparr>f_requires_approval := True\<rparr>)"

definition example_gated_store :: db where
  "example_gated_store =
     \<lparr>workforce_tasks = [example_task, example_gated_task],
      workforce_deliverables =
        [\<lparr>d_id = ''d2'', d_task_id = ''t2'', d_title = ''Build'', d_content = ''Release notes.'',
          d_content_type = ''text'', d_created_by = ''distribution'', d_is_final = True,
          d_created_at = 120\<rparr>],
      workforce_insights = [], workforce_audit_log = [], workforce_events = [],
      workforce_autonomy_sessions = []\<rparr>"

definition example_approve_env :: approve_env where
  "example_approve_env =
     \<lparr>apr_now = 160,
      apr_update = \<lparr>upd_now = 161, upd_trigger_now = 162,
                     upd_audit = \<lparr>uuid4 = ''a2'', utcnow = 163\<rparr>,
                     upd_event = \<lparr>uuid4 = ''e2'', utcnow = 164\<rparr>\<rparr>,
      apr_audit = \<lparr>uuid4 = ''a3'', utcnow = 165\<rparr>\<rparr>"

definition example_reject_env :: reject_env where
  "example_reject_env =
     \<lparr>rej_update = \<lparr>upd_now = 171, upd_trigger_now = 172,
                     upd_audit = \<lparr>uuid4 = ''a4'', utcnow = 173\<rparr>,
                     upd_event = \<lparr>uuid4 = ''e4'', utcnow = 174\<rparr>\<rparr>,
      rej_audit = \<lparr>uuid4 = ''a5'', utcnow = 175\<rparr>\<rparr>"

definition example_review_task :: dict where
  "example_review_task =
     (task_data ''t4'' 100 ((task_defaults ''Publish digest'')\<lparr>f_requires_approval := True\<rparr>))
       (''status'' \<mapsto> JStr ''NEEDS_REVIEW'', ''approved_by'' \<mapsto> JStr ''hustler'',
        ''approved_at'' \<mapsto> JTime 140)"

definition example_review_store :: db where
  "example_review_store =
     \<lparr>workforce_tasks = [example_task, example_review_task], workforce_deliverables = [],
      workforce_insights = [], workforce_audit_log = [], workforce_events = [],
      workforce_autonomy_sessions = []\<rparr>"

definition example_insight :: insight where
  "example_insight =
     \<lparr>i_id = ''i1'', i_task_id = None, i_agent = ''researcher'',
      i_content = ''Creator retention dropped this week'', i_insight_type = ''risk'',
      i_promoted_to_task_id = JNull, i_promoted_at = None, i_created_at = 90\<rparr>"

definition example_insight_store :: db where
  "example_insight_store =
     \<lparr>workforce_tasks = [example_task], workforce_deliverables = [],
      workforce_insights = [example_insight], workforce_audit_log = [], workforce_events = [],
      workforce_autonomy_sessions = []\<rparr>"

definition example_promote_env :: promote_env where
  "example_promote_env =
     \<lparr>pro_create = \<lparr>crt_task_id = ''t3'', crt_now = 300,
                     crt_audit = \<lparr>uuid4 = ''a6'', utcnow = 301\<rparr>,
                     crt_event = \<lparr>uuid4 = ''e6'', utcnow = 302\<rparr>\<rparr>,
      pro_now = 303\<rparr>"

definition example_global_session :: autonomy_session where
  "example_global_session =
     \<lparr>s_id = ''s1'', s_mode = ''advisory'', s_granted_by = ''hustler'', s_granted_to = None,
      s_reason = None, s_starts_at = 10, s_expires_at = 100, s_revoked_at = None,
      s_created_at = 10\<rparr>"

definition example_scoped_session :: autonomy_session where
  "example_scoped_session =
     \<lparr>s_id = ''s2'', s_mode = ''full_autonomy'', s_granted_by = ''hustler'',
      s_granted_to = Some ''A'', s_reason = None, s_starts_at = 20, s_expires_at = 100,
      s_revoked_at = None, s_created_at = 20\<rparr>"

definition example_autonomy_store :: db where
  "example_autonomy_store =
     \<lparr>workforce_tasks = [], workforce_deliverables = [], workforce_insights = [],
      workforce_audit_log = [], workforce_events = [],
      workforce_autonomy_sessions = [example_global_session, example_scoped_session]\<rparr>"

definition example_grant_env :: add_env where
  "example_grant_env =
     \<lparr>add_row = \<lparr>uuid4 = ''s3'', utcnow = 1000\<rparr>, add_audit = \<lparr>uuid4 = ''a7'', utcnow = 1001\<rparr>\<rparr>"

definition example_granted_store :: db where
  "example_granted_store =
     snd (grant_autonomy example_grant_env ''full_autonomy'' ''hustler'' 60 None None
            example_store)"


section \<open>An update that raises writes nothing\<close>

lemma get_task_has_id: "get_task s task_id = Some row \<Longrightarrow> has_id task_id row"
proof -
  assume a: "get_task s task_id = Some row"
  then obtain rest where "filter (has_id task_id) (workforce_tasks s) = row # rest"
    by (auto simp: get_task_def split: list.splits)
  then have "row \<in> set (filter (has_id task_id) (workforce_tasks s))"
    by simp
  then show ?thesis by simp
qed

lemma update_task_error_store:
  "fst (update_task env task_id actor updates s) = Inl e \<Longrightarrow>
   snd (update_task env task_id actor updates s) = s"
  by (auto simp: update_task_def Let_def split: option.splits if_splits prod.splits)

lemma get_task_filter:
  "get_task s task_id = Some row \<Longrightarrow>
   \<exists>rest. filter (has_id task_id) (workforce_tasks s) = row # rest"
  by (auto simp: get_task_def split: list.splits)

lemma has_id_patch_row:
  "updates ''id'' = None \<Longrightarrow> has_id t (patch_row trig updates row) = has_id t row"
  by (simp add: has_id_def patch_row_def map_add_def)

lemma filter_has_id_update:
  assumes "updates ''id'' = None"
  shows "filter (has_id t) (map (\<lambda>row. if has_id task_id row then patch_row trig updates row else row) rows)
       = map (\<lambda>row. if has_id task_id row then patch_row trig updates row else row) (filter (has_id t) rows)"
  using assms by (induction rows) (auto simp: has_id_patch_row)

lemma get_task_update_rows:
  assumes "updates ''id'' = None"
  shows "get_task (snd (update_rows trig updates task_id s)) t =
         map_option (\<lambda>row. if has_id task_id row then patch_row trig updates row else row) (get_task s t)"
  using assms
  by (simp add: get_task_def update_rows_def filter_has_id_update split: list.splits)

lemma update_task_proceeds:
  assumes "get_task s task_id = Some current"
    and "\<not> (dict_get updates ''status'' = JStr ''DONE'' \<and> dict_get current ''status'' \<noteq> JStr ''DONE''
            \<and> (get_deliverables s task_id = []
                \<or> truthy (dict_get current ''requires_approval'')
                   \<and> \<not> truthy (dict_get current ''approved_by'')))"
  shows "update_task env task_id actor updates s =
     (Inr (Some (patch_row (upd_trigger_now env) (updates(''updated_at'' \<mapsto> JTime (upd_now env))) current)),
      (if truthy (dict_get updates ''status'') \<and> dict_get updates ''status'' \<noteq> dict_get current ''status''
       then create_event (upd_event env) ''STATUS_CHANGED''
              [''task_id'' \<mapsto> JStr task_id,
               ''old_status'' \<mapsto> dict_get current ''status'',
               ''new_status'' \<mapsto> dict_get updates ''status'']
       else (\<lambda>x. x))
        (log_audit (upd_audit env) ''TASK_UPDATED'' ''task'' task_id actor
           (if actor \<in> set agent_actors then ''agent'' else ''human'')
           (Some (\<lambda>k. case (updates(''updated_at'' \<mapsto> JTime (upd_now env))) k of None \<Rightarrow> None
                       | Some _ \<Rightarrow> Some (dict_get current k)))
           (Some (updates(''updated_at'' \<mapsto> JTime (upd_now env)))) None
           (snd (update_rows (upd_trigger_now env) (updates(''updated_at'' \<mapsto> JTime (upd_now env))) task_id s))))"
proof -
  obtain rest where f: "filter (has_id task_id) (workforce_tasks s) = current # rest"
    using get_task_filter [OF assms(1)] by blast
  show ?thesis
    using assms f by (auto simp: update_task_def Let_def update_rows_def)
qed

lemma example_task_lookup: "get_task example_store ''t1'' = Some example_task"
  by (simp add: get_task_def example_store_def has_id_def example_task_def task_data_def)

lemma example_task_fields:
  "dict_get example_task ''status'' = JStr ''BACKLOG''"
  "dict_get example_task ''requires_approval'' = JBool False"
  "dict_get example_task ''approved_by'' = JNull"
  by (simp_all add: dict_get_def example_task_def task_data_def task_defaults_def)

text \<open>
  Claim C8.  Whenever \<open>update_task\<close> raises, the store it leaves is the store it found:
  the task row is unchanged and no audit entry and no event were appended.  It raises
  \<open>PreconditionFailed\<close> whenever the task exists, the patch sets the status to DONE, the
  current status is not DONE, and the task has no deliverable or requires an approval that
  \<open>approved_by\<close> does not yet carry.
\<close>

theorem update_task_failed_precondition_writes_nothing:
  "(\<forall>e. fst (update_task env task_id actor updates s) = Inl e \<longrightarrow>
        snd (update_task env task_id actor updates s) = s)
   \<and> (get_task s task_id = Some current
      \<and> dict_get updates ''status'' = JStr ''DONE''
      \<and> dict_get current ''status'' \<noteq> JStr ''DONE''
      \<and> (get_deliverables s task_id = []
          \<or> truthy (dict_get current ''requires_approval'')
             \<and> \<not> truthy (dict_get current ''approved_by''))
      \<longrightarrow> (\<exists>e. PreconditionFailed e
               \<and> update_task env task_id actor updates s = (Inl e, s)))"
proof (intro conjI allI impI)
  fix e
  assume "fst (update_task env task_id actor updates s) = Inl e"
  then show "snd (update_task env task_id actor updates s) = s"
    by (rule update_task_error_store)
next
  assume "get_task s task_id = Some current
      \<and> dict_get updates ''status'' = JStr ''DONE''
      \<and> dict_get current ''status'' \<noteq> JStr ''DONE''
      \<and> (get_deliverables s task_id = []
          \<or> truthy (dict_get current ''requires_approval'')
             \<and> \<not> truthy (dict_get current ''approved_by''))"
  then show "\<exists>e. PreconditionFailed e
               \<and> update_task env task_id actor updates s = (Inl e, s)"
    by (auto simp: update_task_def PreconditionFailed_def Let_def)
qed

theorem update_task_failed_precondition_witness:
  "get_task example_store ''t1'' = Some example_task
   \<and> dict_get [''status'' \<mapsto> JStr ''DONE''] ''status'' = JStr ''DONE''
   \<and> dict_get example_task ''status'' \<noteq> JStr ''DONE''
   \<and> get_deliverables example_store ''t1'' = []
   \<and> (\<exists>e. PreconditionFailed e
          \<and> update_task example_update_env ''t1'' ''alice'' [''status'' \<mapsto> JStr ''DONE'']
                example_store = (Inl e, example_store))"
  using update_task_failed_precondition_writes_nothing
          [of example_update_env "''t1''" "''alice''" "[''status'' \<mapsto> JStr ''DONE'']"
              example_store example_task]
        example_task_lookup example_task_fields
  by (simp add: dict_get_def get_deliverables_def example_store_def)

section \<open>Deliverables gate the transition to DONE\<close>

lemma update_task_result:
  assumes "get_task s task_id = Some current"
    and "\<not> (dict_get updates ''status'' = JStr ''DONE'' \<and> dict_get current ''status'' \<noteq> JStr ''DONE''
            \<and> (get_deliverables s task_id = []
                \<or> truthy (dict_get current ''requires_approval'')
                   \<and> \<not> truthy (dict_get current ''approved_by'')))"
  shows "fst (update_task env task_id actor updates s) =
           Inr (Some (patch_row (upd_trigger_now env)
                        (updates(''updated_at'' \<mapsto> JTime (upd_now env))) current))"
  by (simp add: update_task_proceeds [OF assms])

lemma update_task_tasks:
  assumes "get_task s task_id = Some current"
    and "\<not> (dict_get updates ''status'' = JStr ''DONE'' \<and> dict_get current ''status'' \<noteq> JStr ''DONE''
            \<and> (get_deliverables s task_id = []
                \<or> truthy (dict_get current ''requires_approval'')
                   \<and> \<not> truthy (dict_get current ''approved_by'')))"
  shows "workforce_tasks (snd (update_task env task_id actor updates s)) =
           workforce_tasks (snd (update_rows (upd_trigger_now env)
                        (updates(''updated_at'' \<mapsto> JTime (upd_now env))) task_id s))"
  by (simp add: update_task_proceeds [OF assms] log_audit_def create_event_def)

lemma get_task_cong: "workforce_tasks s = workforce_tasks s' \<Longrightarrow> get_task s t = get_task s' t"
  by (simp add: get_task_def)

lemma update_task_get_task:
  assumes "get_task s task_id = Some current"
    and "\<not> (dict_get updates ''status'' = JStr ''DONE'' \<and> dict_get current ''status'' \<noteq> JStr ''DONE''
            \<and> (get_deliverables s task_id = []
                \<or> truthy (dict_get current ''requires_approval'')
                   \<and> \<not> truthy (dict_get current ''approved_by'')))"
    and "updates ''id'' = None"
  shows "get_task (snd (update_task env task_id actor updates s)) task_id =
           Some (patch_row (upd_trigger_now env)
                        (updates(''updated_at'' \<mapsto> JTime (upd_now env))) current)"
proof -
  let ?u = "updates(''updated_at'' \<mapsto> JTime (upd_now env))"
  have id: "?u ''id'' = None" using assms(3) by simp
  have "get_task (snd (update_task env task_id actor updates s)) task_id
        = get_task (snd (update_rows (upd_trigger_now env) ?u task_id s)) task_id"
    by (rule get_task_cong) (rule update_task_tasks [OF assms(1,2)])
  also have "\<dots> = Some (patch_row (upd_trigger_now env) ?u current)"
    using get_task_has_id [OF assms(1)] id
    by (simp add: get_task_update_rows assms(1))
  finally show ?thesis .
qed

lemma add_deliverable_store:
  "get_deliverables (snd (add_deliverable env task_id title content created_by content_type is_final s)) task_id \<noteq> []"
  "get_task (snd (add_deliverable env task_id title content created_by content_type is_final s)) t = get_task s t"
  by (simp_all add: add_deliverable_def Let_def log_audit_def get_deliverables_def get_task_def)

lemma done_row_status:
  "dict_get (patch_row trig ([''status'' \<mapsto> JStr ''DONE''](''updated_at'' \<mapsto> v)) row) ''status'' = JStr ''DONE''"
  by (simp add: patch_row_def dict_get_def map_add_def)

text \<open>
  Claim C1.  For an existing task whose status is not DONE, \<open>update_task\<close> with the patch
  \<open>{status: DONE}\<close> raises \<open>PreconditionFailed\<close> and leaves the store as it was when
  the task has no deliverable.  When approval is not required or already granted, the same
  call succeeds on every store in which the task has a deliverable, and in particular on
  the store that \<open>add_deliverable\<close> leaves: it returns the task row with status DONE.
\<close>

theorem done_requires_deliverable:
  "get_task s task_id = Some current \<and> dict_get current ''status'' \<noteq> JStr ''DONE'' \<longrightarrow>
     (get_deliverables s task_id = [] \<longrightarrow>
        update_task env task_id actor [''status'' \<mapsto> JStr ''DONE''] s
          = (Inl PreconditionFailed_deliverable, s))
   \<and> (\<not> truthy (dict_get current ''requires_approval'') \<or> truthy (dict_get current ''approved_by'') \<longrightarrow>
        (get_deliverables s task_id \<noteq> [] \<longrightarrow>
           (\<exists>row. fst (update_task env task_id actor [''status'' \<mapsto> JStr ''DONE''] s) = Inr (Some row)
               \<and> dict_get row ''status'' = JStr ''DONE''
               \<and> get_task (snd (update_task env task_id actor [''status'' \<mapsto> JStr ''DONE''] s)) task_id
                   = Some row))
      \<and> (\<exists>row. fst (update_task env task_id actor [''status'' \<mapsto> JStr ''DONE'']
                        (snd (add_deliverable denv task_id title content created_by content_type
                                is_final s))) = Inr (Some row)
               \<and> dict_get row ''status'' = JStr ''DONE''))"
proof (intro impI conjI; (elim conjE)?)
  assume c: "get_task s task_id = Some current" and st: "dict_get current ''status'' \<noteq> JStr ''DONE''"
  {
    assume "get_deliverables s task_id = []"
    with c st show "update_task env task_id actor [''status'' \<mapsto> JStr ''DONE''] s
          = (Inl PreconditionFailed_deliverable, s)"
      by (simp add: update_task_def dict_get_def)
  }
  assume ap: "\<not> truthy (dict_get current ''requires_approval'') \<or> truthy (dict_get current ''approved_by'')"
  {
    assume d: "get_deliverables s task_id \<noteq> []"
    have g: "\<not> (dict_get [''status'' \<mapsto> JStr ''DONE''] ''status'' = JStr ''DONE'' \<and> dict_get current ''status'' \<noteq> JStr ''DONE''
            \<and> (get_deliverables s task_id = []
                \<or> truthy (dict_get current ''requires_approval'')
                   \<and> \<not> truthy (dict_get current ''approved_by'')))"
      using d ap by blast
    show "\<exists>row. fst (update_task env task_id actor [''status'' \<mapsto> JStr ''DONE''] s) = Inr (Some row)
               \<and> dict_get row ''status'' = JStr ''DONE''
               \<and> get_task (snd (update_task env task_id actor [''status'' \<mapsto> JStr ''DONE''] s)) task_id
                   = Some row"
      using update_task_result [OF c g, of env actor] update_task_get_task [OF c g, of env actor]
      by (simp add: done_row_status)
  }
  let ?s = "snd (add_deliverable denv task_id title content created_by content_type is_final s)"
  have c': "get_task ?s task_id = Some current"
    by (simp add: add_deliverable_store c)
  have g: "\<not> (dict_get [''status'' \<mapsto> JStr ''DONE''] ''status'' = JStr ''DONE'' \<and> dict_get current ''status'' \<noteq> JStr ''DONE''
            \<and> (get_deliverables ?s task_id = []
                \<or> truthy (dict_get current ''requires_approval'')
                   \<and> \<not> truthy (dict_get current ''approved_by'')))"
    using ap add_deliverable_store(1) [of denv task_id title content created_by content_type is_final s]
    by blast
  show "\<exists>row. fst (update_task env task_id actor [''status'' \<mapsto> JStr ''DONE''] ?s) = Inr (Some row)
               \<and> dict_get row ''status'' = JStr ''DONE''"
    using update_task_result [OF c' g, of env actor]
    by (simp add: done_row_status)
qed

lemma example_delivered_lookup:
  "get_task example_delivered_store ''t1'' = Some example_task"
  "get_deliverables example_delivered_store ''t1'' \<noteq> []"
  by (simp_all add: example_delivered_store_def add_deliverable_store example_task_lookup)

theorem done_requires_deliverable_witness:
  "get_task example_store ''t1'' = Some example_task
   \<and> dict_get example_task ''status'' \<noteq> JStr ''DONE''
   \<and> \<not> truthy (dict_get example_task ''requires_approval'')
   \<and> get_deliverables example_store ''t1'' = []
   \<and> update_task example_update_env ''t1'' ''alice'' [''status'' \<mapsto> JStr ''DONE''] example_store
       = (Inl PreconditionFailed_deliverable, example_store)
   \<and> get_task example_delivered_store ''t1'' = Some example_task
   \<and> get_deliverables example_delivered_store ''t1'' \<noteq> []
   \<and> (\<exists>row. fst (update_task example_update_env ''t1'' ''alice'' [''status'' \<mapsto> JStr ''DONE'']
                    example_delivered_store) = Inr (Some row)
          \<and> dict_get row ''status'' = JStr ''DONE''
          \<and> get_task (snd (update_task example_update_env ''t1'' ''alice''
                              [''status'' \<mapsto> JStr ''DONE''] example_delivered_store)) ''t1''
              = Some row)"
  using done_requires_deliverable
          [of example_store "''t1''" example_task example_update_env "''alice''"]
        done_requires_deliverable
          [of example_delivered_store "''t1''" example_task example_update_env "''alice''"]
        example_task_lookup example_task_fields example_delivered_lookup
  by (simp add: get_deliverables_def example_store_def)

section \<open>Approval gates the transition to DONE\<close>

lemma approve_patch_no_gate:
  "\<not> (dict_get [''approved_by'' \<mapsto> a, ''approved_at'' \<mapsto> b] ''status'' = JStr ''DONE'' \<and> P)"
  by (simp add: dict_get_def)

lemma approve_task_result:
  assumes "get_task s task_id = Some current"
  shows "fst (approve_task env task_id approved_by s) =
           Inr (Some (patch_row (upd_trigger_now (apr_update env))
                  [''approved_by'' \<mapsto> JStr approved_by, ''approved_at'' \<mapsto> JTime (apr_now env),
                   ''updated_at'' \<mapsto> JTime (upd_now (apr_update env))] current))"
  by (simp add: approve_task_def Let_def update_task_proceeds [OF assms approve_patch_no_gate]
        split: prod.splits)

lemma approve_task_store:
  assumes "get_task s task_id = Some current"
  shows "snd (approve_task env task_id approved_by s) =
           log_audit (apr_audit env) ''HUMAN_APPROVED'' ''task'' task_id approved_by ''human''
             None (Some [''approved_at'' \<mapsto> JTime (apr_now env)]) None
             (snd (update_task (apr_update env) task_id approved_by
                [''approved_by'' \<mapsto> JStr approved_by, ''approved_at'' \<mapsto> JTime (apr_now env)] s))"
  by (simp add: approve_task_def Let_def update_task_proceeds [OF assms approve_patch_no_gate]
        split: prod.splits)

lemma log_audit_frame:
  "workforce_tasks (log_audit fr et ent eid ac at ov nv md s) = workforce_tasks s"
  "workforce_deliverables (log_audit fr et ent eid ac at ov nv md s) = workforce_deliverables s"
  "workforce_insights (log_audit fr et ent eid ac at ov nv md s) = workforce_insights s"
  "workforce_events (log_audit fr et ent eid ac at ov nv md s) = workforce_events s"
  "workforce_autonomy_sessions (log_audit fr et ent eid ac at ov nv md s) = workforce_autonomy_sessions s"
  by (simp_all add: log_audit_def)

lemma update_task_frame:
  "workforce_deliverables (snd (update_task env task_id actor updates s)) = workforce_deliverables s"
  "workforce_insights (snd (update_task env task_id actor updates s)) = workforce_insights s"
  "workforce_autonomy_sessions (snd (update_task env task_id actor updates s)) = workforce_autonomy_sessions s"
  by (auto simp: update_task_def Let_def update_rows_def log_audit_def create_event_def
        split: option.splits)

lemma approve_task_get_task:
  assumes "get_task s task_id = Some current"
  shows "get_task (snd (approve_task env task_id approved_by s)) task_id =
           Some (patch_row (upd_trigger_now (apr_update env))
                  [''approved_by'' \<mapsto> JStr approved_by, ''approved_at'' \<mapsto> JTime (apr_now env),
                   ''updated_at'' \<mapsto> JTime (upd_now (apr_update env))] current)"
proof -
  have "get_task (snd (approve_task env task_id approved_by s)) task_id =
        get_task (snd (update_task (apr_update env) task_id approved_by
                [''approved_by'' \<mapsto> JStr approved_by, ''approved_at'' \<mapsto> JTime (apr_now env)] s)) task_id"
    by (rule get_task_cong) (simp add: approve_task_store [OF assms] log_audit_frame)
  also have "\<dots> = Some (patch_row (upd_trigger_now (apr_update env))
                  [''approved_by'' \<mapsto> JStr approved_by, ''approved_at'' \<mapsto> JTime (apr_now env),
                   ''updated_at'' \<mapsto> JTime (upd_now (apr_update env))] current)"
    by (simp add: update_task_get_task [OF assms approve_patch_no_gate])
  finally show ?thesis .
qed

lemma approve_task_deliverables:
  assumes "get_task s task_id = Some current"
  shows "get_deliverables (snd (approve_task env task_id approved_by s)) t = get_deliverables s t"
  by (simp add: get_deliverables_def approve_task_store [OF assms] log_audit_frame update_task_frame)

lemma approved_row_fields:
  "dict_get (patch_row trig [''approved_by'' \<mapsto> a, ''approved_at'' \<mapsto> b, ''updated_at'' \<mapsto> c] row) k =
     (if k = ''updated_at'' then JTime trig else if k = ''approved_at'' then b
      else if k = ''approved_by'' then a else dict_get row k)"
  by (simp add: patch_row_def dict_get_def map_add_def)

lemma update_task_needs_approval:
  assumes "get_task s task_id = Some current"
    and "dict_get current ''status'' \<noteq> JStr ''DONE''"
    and "get_deliverables s task_id \<noteq> []"
    and "truthy (dict_get current ''requires_approval'')"
    and "\<not> truthy (dict_get current ''approved_by'')"
  shows "update_task env task_id actor [''status'' \<mapsto> JStr ''DONE''] s
           = (Inl PreconditionFailed_approval, s)"
  using assms by (simp add: update_task_def dict_get_def)

lemma example_gated_lookup:
  "get_task example_gated_store ''t2'' = Some example_gated_task"
  "get_deliverables example_gated_store ''t2'' \<noteq> []"
  by (simp_all add: get_task_def get_deliverables_def example_gated_store_def has_id_def
        example_gated_task_def example_task_def task_data_def)

lemma example_gated_fields:
  "dict_get example_gated_task ''status'' = JStr ''BACKLOG''"
  "dict_get example_gated_task ''requires_approval'' = JBool True"
  "dict_get example_gated_task ''approved_by'' = JNull"
  by (simp_all add: dict_get_def example_gated_task_def task_data_def task_defaults_def)

text \<open>
  Claim C2, as stated, fails for the empty actor: \<open>approve_task\<close> stores the empty string in
  \<open>approved_by\<close>, which \<^verbatim>\<open>not current.get("approved_by")\<close> still takes for unset.
\<close>

theorem approval_by_empty_actor_counterexample:
  "get_task example_gated_store ''t2'' = Some example_gated_task
   \<and> truthy (dict_get example_gated_task ''requires_approval'')
   \<and> dict_get example_gated_task ''approved_by'' = JNull
   \<and> get_deliverables example_gated_store ''t2'' \<noteq> []
   \<and> \<not> isl (fst (approve_task example_approve_env ''t2'' [] example_gated_store))
   \<and> fst (update_task example_update_env ''t2'' ''alice'' [''status'' \<mapsto> JStr ''DONE'']
             (snd (approve_task example_approve_env ''t2'' [] example_gated_store)))
       = Inl PreconditionFailed_approval"
proof -
  let ?s = "snd (approve_task example_approve_env ''t2'' [] example_gated_store)"
  let ?row = "patch_row (upd_trigger_now (apr_update example_approve_env))
                  [''approved_by'' \<mapsto> JStr [], ''approved_at'' \<mapsto> JTime (apr_now example_approve_env),
                   ''updated_at'' \<mapsto> JTime (upd_now (apr_update example_approve_env))] example_gated_task"
  have g: "get_task ?s ''t2'' = Some ?row"
    by (rule approve_task_get_task) (rule example_gated_lookup)
  have d: "get_deliverables ?s ''t2'' \<noteq> []"
    by (simp add: approve_task_deliverables [OF example_gated_lookup(1)] example_gated_lookup)
  have "update_task example_update_env ''t2'' ''alice'' [''status'' \<mapsto> JStr ''DONE''] ?s
          = (Inl PreconditionFailed_approval, ?s)"
    by (rule update_task_needs_approval [OF g _ d])
       (simp_all add: approved_row_fields example_gated_fields)
  then show ?thesis
    by (simp add: example_gated_lookup example_gated_fields
          approve_task_result [OF example_gated_lookup(1)])
qed

text \<open>
  Claim C2, amended.  For a task that requires approval, has no approver, is not DONE and
  has a deliverable, the patch \<open>{status: DONE}\<close> raises \<open>PreconditionFailed\<close> and leaves the
  store as it was.  After \<open>approve_task\<close> with a non-empty actor, which sets \<open>approved_by\<close>
  to the actor and \<open>approved_at\<close> to its clock reading, the same patch succeeds and returns
  the row with status DONE.
\<close>

theorem approval_gates_done:
  "get_task s task_id = Some current
   \<and> dict_get current ''status'' \<noteq> JStr ''DONE''
   \<and> truthy (dict_get current ''requires_approval'')
   \<and> \<not> truthy (dict_get current ''approved_by'')
   \<and> get_deliverables s task_id \<noteq> [] \<longrightarrow>
     update_task env task_id actor [''status'' \<mapsto> JStr ''DONE''] s
       = (Inl PreconditionFailed_approval, s)
     \<and> (approver \<noteq> [] \<longrightarrow>
          (\<exists>approved done.
              fst (approve_task aenv task_id approver s) = Inr (Some approved)
            \<and> dict_get approved ''approved_by'' = JStr approver
            \<and> dict_get approved ''approved_at'' = JTime (apr_now aenv)
            \<and> fst (update_task env task_id actor [''status'' \<mapsto> JStr ''DONE'']
                     (snd (approve_task aenv task_id approver s))) = Inr (Some done)
            \<and> dict_get done ''status'' = JStr ''DONE''))"
proof (intro impI conjI; (elim conjE)?)
  assume c: "get_task s task_id = Some current"
    and st: "dict_get current ''status'' \<noteq> JStr ''DONE''"
    and ra: "truthy (dict_get current ''requires_approval'')"
    and ab: "\<not> truthy (dict_get current ''approved_by'')"
    and d: "get_deliverables s task_id \<noteq> []"
  show "update_task env task_id actor [''status'' \<mapsto> JStr ''DONE''] s
       = (Inl PreconditionFailed_approval, s)"
    by (rule update_task_needs_approval [OF c st d ra ab])
  assume ne: "approver \<noteq> []"
  let ?s = "snd (approve_task aenv task_id approver s)"
  let ?row = "patch_row (upd_trigger_now (apr_update aenv))
                  [''approved_by'' \<mapsto> JStr approver, ''approved_at'' \<mapsto> JTime (apr_now aenv),
                   ''updated_at'' \<mapsto> JTime (upd_now (apr_update aenv))] current"
  have g: "get_task ?s task_id = Some ?row"
    by (rule approve_task_get_task [OF c])
  have d': "get_deliverables ?s task_id \<noteq> []"
    by (simp add: approve_task_deliverables [OF c] d)
  have gate: "\<not> (dict_get [''status'' \<mapsto> JStr ''DONE''] ''status'' = JStr ''DONE''
            \<and> dict_get ?row ''status'' \<noteq> JStr ''DONE''
            \<and> (get_deliverables ?s task_id = []
                \<or> truthy (dict_get ?row ''requires_approval'')
                   \<and> \<not> truthy (dict_get ?row ''approved_by'')))"
    using d' ne by (simp add: approved_row_fields)
  show "\<exists>approved done.
              fst (approve_task aenv task_id approver s) = Inr (Some approved)
            \<and> dict_get approved ''approved_by'' = JStr approver
            \<and> dict_get approved ''approved_at'' = JTime (apr_now aenv)
            \<and> fst (update_task env task_id actor [''status'' \<mapsto> JStr ''DONE''] ?s) = Inr (Some done)
            \<and> dict_get done ''status'' = JStr ''DONE''"
    using approve_task_result [OF c, of aenv approver]
          update_task_result [OF g gate, of env actor]
    by (simp add: approved_row_fields done_row_status)
qed

theorem approval_gates_done_witness:
  "get_task example_gated_store ''t2'' = Some example_gated_task
   \<and> dict_get example_gated_task ''status'' \<noteq> JStr ''DONE''
   \<and> truthy (dict_get example_gated_task ''requires_approval'')
   \<and> \<not> truthy (dict_get example_gated_task ''approved_by'')
   \<and> get_deliverables example_gated_store ''t2'' \<noteq> []
   \<and> ''hustler'' \<noteq> []
   \<and> update_task example_update_env ''t2'' ''alice'' [''status'' \<mapsto> JStr ''DONE'']
        example_gated_store = (Inl PreconditionFailed_approval, example_gated_store)
   \<and> (\<exists>approved done.
          fst (approve_task example_approve_env ''t2'' ''hustler'' example_gated_store)
            = Inr (Some approved)
        \<and> dict_get approved ''approved_by'' = JStr ''hustler''
        \<and> dict_get approved ''approved_at'' = JTime 160
        \<and> fst (update_task example_update_env ''t2'' ''alice'' [''status'' \<mapsto> JStr ''DONE'']
                 (snd (approve_task example_approve_env ''t2'' ''hustler'' example_gated_store)))
            = Inr (Some done)
        \<and> dict_get done ''status'' = JStr ''DONE'')"
  using approval_gates_done
          [of example_gated_store "''t2''" example_gated_task example_update_env "''alice''"
              "''hustler''" example_approve_env]
        example_gated_lookup example_gated_fields
  by (simp add: example_approve_env_def)

section \<open>What an approval changes\<close>

lemma update_task_audit:
  assumes "get_task s task_id = Some current"
    and "\<not> (dict_get updates ''status'' = JStr ''DONE'' \<and> dict_get current ''status'' \<noteq> JStr ''DONE''
            \<and> (get_deliverables s task_id = []
                \<or> truthy (dict_get current ''requires_approval'')
                   \<and> \<not> truthy (dict_get current ''approved_by'')))"
  shows "workforce_audit_log (snd (update_task env task_id actor updates s)) =
           workforce_audit_log s @
             [\<lparr>a_id = uuid4 (upd_audit env),
               a_event_type = ''TASK_UPDATED'',
               a_entity_type = ''task'',
               a_entity_id = task_id,
               a_actor = actor,
               a_actor_type = (if actor \<in> set agent_actors then ''agent'' else ''human''),
               a_old_value = Some (\<lambda>k. case (updates(''updated_at'' \<mapsto> JTime (upd_now env))) k of
                                         None \<Rightarrow> None | Some _ \<Rightarrow> Some (dict_get current k)),
               a_new_value = Some (updates(''updated_at'' \<mapsto> JTime (upd_now env))),
               a_metadata = Map.empty,
               a_created_at = utcnow (upd_audit env)\<rparr>]"
  by (simp add: update_task_proceeds [OF assms] log_audit_def create_event_def update_rows_def)

lemma update_task_events:
  assumes "get_task s task_id = Some current"
    and "\<not> (dict_get updates ''status'' = JStr ''DONE'' \<and> dict_get current ''status'' \<noteq> JStr ''DONE''
            \<and> (get_deliverables s task_id = []
                \<or> truthy (dict_get current ''requires_approval'')
                   \<and> \<not> truthy (dict_get current ''approved_by'')))"
  shows "workforce_events (snd (update_task env task_id actor updates s)) =
           workforce_events s @
             (if truthy (dict_get updates ''status'')
                 \<and> dict_get updates ''status'' \<noteq> dict_get current ''status''
              then [\<lparr>e_id = uuid4 (upd_event env),
                     e_event_type = ''STATUS_CHANGED'',
                     e_payload = [''task_id'' \<mapsto> JStr task_id,
                                  ''old_status'' \<mapsto> dict_get current ''status'',
                                  ''new_status'' \<mapsto> dict_get updates ''status''],
                     e_processed = False,
                     e_created_at = utcnow (upd_event env)\<rparr>]
              else [])"
  by (simp add: update_task_proceeds [OF assms] log_audit_def create_event_def update_rows_def)

lemma update_task_succeeded:
  assumes "fst (update_task env task_id actor updates s) = Inr r"
  shows "\<exists>current. get_task s task_id = Some current
     \<and> \<not> (dict_get updates ''status'' = JStr ''DONE'' \<and> dict_get current ''status'' \<noteq> JStr ''DONE''
            \<and> (get_deliverables s task_id = []
                \<or> truthy (dict_get current ''requires_approval'')
                   \<and> \<not> truthy (dict_get current ''approved_by'')))"
  using assms
  by (auto simp: update_task_def Let_def split: option.splits if_splits)

lemma approve_task_succeeded:
  assumes "fst (approve_task env task_id approved_by s) = Inr r"
  shows "\<exists>current. get_task s task_id = Some current"
  using assms
  by (auto simp: approve_task_def update_task_def Let_def split: option.splits if_splits prod.splits)

lemma reject_patch_no_gate:
  "\<not> (dict_get [''status'' \<mapsto> JStr ''BACKLOG'', ''approved_by'' \<mapsto> a, ''approved_at'' \<mapsto> b] ''status''
        = JStr ''DONE'' \<and> P)"
  by (simp add: dict_get_def)

lemma reject_task_succeeded:
  assumes "fst (reject_task env task_id rejected_by reason s) = Inr r"
  shows "\<exists>current. get_task s task_id = Some current"
  using assms
  by (auto simp: reject_task_def update_task_def Let_def split: option.splits if_splits prod.splits)

lemma reject_task_result:
  assumes "get_task s task_id = Some current"
  shows "fst (reject_task env task_id rejected_by reason s) =
           Inr (Some (patch_row (upd_trigger_now (rej_update env))
                  [''status'' \<mapsto> JStr ''BACKLOG'', ''approved_by'' \<mapsto> JNull, ''approved_at'' \<mapsto> JNull,
                   ''updated_at'' \<mapsto> JTime (upd_now (rej_update env))] current))"
  by (simp add: reject_task_def update_task_proceeds [OF assms reject_patch_no_gate]
        split: prod.splits)

lemma reject_task_store:
  assumes "get_task s task_id = Some current"
  shows "snd (reject_task env task_id rejected_by reason s) =
           log_audit (rej_audit env) ''HUMAN_REJECTED'' ''task'' task_id rejected_by ''human''
             None None (Some [''reason'' \<mapsto> jopt reason])
             (snd (update_task (rej_update env) task_id rejected_by
                [''status'' \<mapsto> JStr ''BACKLOG'', ''approved_by'' \<mapsto> JNull,
                 ''approved_at'' \<mapsto> JNull] s))"
  by (simp add: reject_task_def update_task_proceeds [OF assms reject_patch_no_gate]
        split: prod.splits)

lemma reject_task_get_task:
  assumes "get_task s task_id = Some current"
  shows "get_task (snd (reject_task env task_id rejected_by reason s)) task_id =
           Some (patch_row (upd_trigger_now (rej_update env))
                  [''status'' \<mapsto> JStr ''BACKLOG'', ''approved_by'' \<mapsto> JNull, ''approved_at'' \<mapsto> JNull,
                   ''updated_at'' \<mapsto> JTime (upd_now (rej_update env))] current)"
proof -
  have "get_task (snd (reject_task env task_id rejected_by reason s)) task_id =
        get_task (snd (update_task (rej_update env) task_id rejected_by
                [''status'' \<mapsto> JStr ''BACKLOG'', ''approved_by'' \<mapsto> JNull,
                 ''approved_at'' \<mapsto> JNull] s)) task_id"
    by (rule get_task_cong) (simp add: reject_task_store [OF assms] log_audit_frame)
  also have "\<dots> = Some (patch_row (upd_trigger_now (rej_update env))
                  [''status'' \<mapsto> JStr ''BACKLOG'', ''approved_by'' \<mapsto> JNull, ''approved_at'' \<mapsto> JNull,
                   ''updated_at'' \<mapsto> JTime (upd_now (rej_update env))] current)"
    by (simp add: update_task_get_task [OF assms reject_patch_no_gate])
  finally show ?thesis .
qed

lemma log_audit_log:
  "workforce_audit_log (log_audit fr et ent eid ac at ov nv md s) =
     workforce_audit_log s @
       [\<lparr>a_id = uuid4 fr, a_event_type = et, a_entity_type = ent, a_entity_id = eid,
         a_actor = ac, a_actor_type = at, a_old_value = ov, a_new_value = nv,
         a_metadata = (case md of None \<Rightarrow> Map.empty | Some m \<Rightarrow> m),
         a_created_at = utcnow fr\<rparr>]"
  by (simp add: log_audit_def)

lemma get_task_other_update_rows:
  assumes "updates ''id'' = None" and "t \<noteq> task_id"
  shows "get_task (snd (update_rows trig updates task_id s)) t = get_task s t"
proof (cases "get_task s t")
  case None
  then show ?thesis using assms(1) by (simp add: get_task_update_rows)
next
  case (Some row)
  then have "has_id t row" by (rule get_task_has_id)
  with assms(2) have "\<not> has_id task_id row" by (auto simp: has_id_def)
  with Some show ?thesis using assms(1) by (simp add: get_task_update_rows)
qed

lemma approve_task_other_task:
  assumes "get_task s task_id = Some current" and "t \<noteq> task_id"
  shows "get_task (snd (approve_task env task_id approved_by s)) t = get_task s t"
proof -
  have "get_task (snd (approve_task env task_id approved_by s)) t =
        get_task (snd (update_rows (upd_trigger_now (apr_update env))
                  [''approved_by'' \<mapsto> JStr approved_by, ''approved_at'' \<mapsto> JTime (apr_now env),
                   ''updated_at'' \<mapsto> JTime (upd_now (apr_update env))] task_id s)) t"
    by (rule get_task_cong)
       (simp add: approve_task_store [OF assms(1)] log_audit_frame
          update_task_tasks [OF assms(1) approve_patch_no_gate])
  also have "\<dots> = get_task s t"
    by (rule get_task_other_update_rows) (simp_all add: assms(2))
  finally show ?thesis .
qed

lemma approved_row_other_keys:
  "k \<notin> {''approved_by'', ''approved_at'', ''updated_at''} \<Longrightarrow>
   patch_row trig [''approved_by'' \<mapsto> a, ''approved_at'' \<mapsto> b, ''updated_at'' \<mapsto> c] row k = row k"
  by (simp add: patch_row_def map_add_def)

text \<open>
  Claim C10.  For an existing task, \<open>approve_task\<close> succeeds and the task row it returns,
  which is the row the store then holds, differs from the row before only at
  \<open>approved_by\<close>, \<open>approved_at\<close> and \<open>updated_at\<close>: every other key, the status among them,
  keeps its value.  The rows of all other tasks and the deliverables are untouched.
\<close>

theorem approve_task_changes_only_approval_fields:
  "get_task s task_id = Some current \<longrightarrow>
     (\<exists>row. fst (approve_task env task_id approved_by s) = Inr (Some row)
        \<and> get_task (snd (approve_task env task_id approved_by s)) task_id = Some row
        \<and> (\<forall>k. k \<notin> {''approved_by'', ''approved_at'', ''updated_at''} \<longrightarrow> row k = current k)
        \<and> dict_get row ''status'' = dict_get current ''status''
        \<and> row ''approved_by'' = Some (JStr approved_by)
        \<and> row ''approved_at'' = Some (JTime (apr_now env))
        \<and> row ''updated_at'' = Some (JTime (upd_trigger_now (apr_update env))))
     \<and> (\<forall>t. t \<noteq> task_id \<longrightarrow>
           get_task (snd (approve_task env task_id approved_by s)) t = get_task s t)
     \<and> workforce_deliverables (snd (approve_task env task_id approved_by s))
         = workforce_deliverables s"
proof (intro impI conjI allI)
  assume c: "get_task s task_id = Some current"
  let ?row = "patch_row (upd_trigger_now (apr_update env))
                  [''approved_by'' \<mapsto> JStr approved_by, ''approved_at'' \<mapsto> JTime (apr_now env),
                   ''updated_at'' \<mapsto> JTime (upd_now (apr_update env))] current"
  have "fst (approve_task env task_id approved_by s) = Inr (Some ?row)"
    by (rule approve_task_result [OF c])
  moreover have "get_task (snd (approve_task env task_id approved_by s)) task_id = Some ?row"
    by (rule approve_task_get_task [OF c])
  moreover have "\<forall>k. k \<notin> {''approved_by'', ''approved_at'', ''updated_at''} \<longrightarrow> ?row k = current k"
    using approved_row_other_keys by blast
  moreover have "dict_get ?row ''status'' = dict_get current ''status''"
    by (simp add: approved_row_fields)
  moreover have "?row ''approved_by'' = Some (JStr approved_by)"
    "?row ''approved_at'' = Some (JTime (apr_now env))"
    "?row ''updated_at'' = Some (JTime (upd_trigger_now (apr_update env)))"
    by (simp_all add: patch_row_def map_add_def)
  ultimately show "\<exists>row. fst (approve_task env task_id approved_by s) = Inr (Some row)
        \<and> get_task (snd (approve_task env task_id approved_by s)) task_id = Some row
        \<and> (\<forall>k. k \<notin> {''approved_by'', ''approved_at'', ''updated_at''} \<longrightarrow> row k = current k)
        \<and> dict_get row ''status'' = dict_get current ''status''
        \<and> row ''approved_by'' = Some (JStr approved_by)
        \<and> row ''approved_at'' = Some (JTime (apr_now env))
        \<and> row ''updated_at'' = Some (JTime (upd_trigger_now (apr_update env)))"
    by blast
  show "workforce_deliverables (snd (approve_task env task_id approved_by s))
         = workforce_deliverables s"
    by (simp add: approve_task_store [OF c] log_audit_frame update_task_frame)
  fix t
  assume "t \<noteq> task_id"
  then show "get_task (snd (approve_task env task_id approved_by s)) t = get_task s t"
    by (rule approve_task_other_task [OF c])
qed

theorem approve_task_changes_only_approval_fields_witness:
  "get_task example_gated_store ''t2'' = Some example_gated_task
   \<and> ''title'' \<notin> {''approved_by'', ''approved_at'', ''updated_at''}
   \<and> ''t1'' \<noteq> ''t2''
   \<and> (\<exists>row. fst (approve_task example_approve_env ''t2'' ''hustler'' example_gated_store)
               = Inr (Some row)
          \<and> row ''title'' = Some (JStr ''Ship release'')
          \<and> dict_get row ''status'' = JStr ''BACKLOG''
          \<and> row ''approved_by'' = Some (JStr ''hustler'')
          \<and> row ''approved_at'' = Some (JTime 160)
          \<and> row ''updated_at'' = Some (JTime 162))
   \<and> get_task (snd (approve_task example_approve_env ''t2'' ''hustler'' example_gated_store)) ''t1''
       = Some example_task"
proof -
  have t: "example_gated_task ''title'' = Some (JStr ''Ship release'')"
    by (simp add: example_gated_task_def task_data_def task_defaults_def)
  have o: "get_task example_gated_store ''t1'' = Some example_task"
    by (simp add: get_task_def example_gated_store_def has_id_def example_task_def task_data_def)
  have k: "''title'' \<notin> {''approved_by'', ''approved_at'', ''updated_at''}" and n: "''t1'' \<noteq> ''t2''"
    by simp_all
  note w = approve_task_changes_only_approval_fields
          [of example_gated_store "''t2''" example_gated_task example_approve_env "''hustler''",
           THEN mp, OF example_gated_lookup(1)]
  from w [THEN conjunct1] obtain row where
    r: "fst (approve_task example_approve_env ''t2'' ''hustler'' example_gated_store) = Inr (Some row)
        \<and> get_task (snd (approve_task example_approve_env ''t2'' ''hustler'' example_gated_store)) ''t2'' = Some row
        \<and> (\<forall>k. k \<notin> {''approved_by'', ''approved_at'', ''updated_at''} \<longrightarrow> row k = example_gated_task k)
        \<and> dict_get row ''status'' = dict_get example_gated_task ''status''
        \<and> row ''approved_by'' = Some (JStr ''hustler'')
        \<and> row ''approved_at'' = Some (JTime (apr_now example_approve_env))
        \<and> row ''updated_at'' = Some (JTime (upd_trigger_now (apr_update example_approve_env)))" ..
  from r have rk: "\<forall>k. k \<notin> {''approved_by'', ''approved_at'', ''updated_at''} \<longrightarrow> row k = example_gated_task k"
    by (elim conjE)
  from rk have "''title'' \<notin> {''approved_by'', ''approved_at'', ''updated_at''} \<longrightarrow> row ''title'' = example_gated_task ''title''"
    by (rule spec)
  with k have title: "row ''title'' = example_gated_task ''title''" by (rule mp [rotated])
  from w [THEN conjunct2, THEN conjunct1]
  have "''t1'' \<noteq> ''t2'' \<longrightarrow> get_task (snd (approve_task example_approve_env ''t2'' ''hustler'' example_gated_store)) ''t1''
             = get_task example_gated_store ''t1''"
    by (rule spec)
  with n have other: "get_task (snd (approve_task example_approve_env ''t2'' ''hustler'' example_gated_store)) ''t1''
             = get_task example_gated_store ''t1''" by (rule mp [rotated])
  from r have r1: "fst (approve_task example_approve_env ''t2'' ''hustler'' example_gated_store) = Inr (Some row)"
    by (rule conjunct1)
  from r have r2: "dict_get row ''status'' = dict_get example_gated_task ''status''
        \<and> row ''approved_by'' = Some (JStr ''hustler'')
        \<and> row ''approved_at'' = Some (JTime (apr_now example_approve_env))
        \<and> row ''updated_at'' = Some (JTime (upd_trigger_now (apr_update example_approve_env)))"
    by (elim conjE, intro conjI)
  have row: "fst (approve_task example_approve_env ''t2'' ''hustler'' example_gated_store) = Inr (Some row)
          \<and> row ''title'' = Some (JStr ''Ship release'')
          \<and> dict_get row ''status'' = JStr ''BACKLOG''
          \<and> row ''approved_by'' = Some (JStr ''hustler'')
          \<and> row ''approved_at'' = Some (JTime 160)
          \<and> row ''updated_at'' = Some (JTime 162)"
  proof -
    have e: "apr_now example_approve_env = 160"
      "upd_trigger_now (apr_update example_approve_env) = 162"
      by (simp_all add: example_approve_env_def)
    from title t have a: "row ''title'' = Some (JStr ''Ship release'')"
      by (simp only:)
    from r2 have b: "dict_get row ''status'' = JStr ''BACKLOG''"
      by (simp only: example_gated_fields)
    from r2 have c: "row ''approved_by'' = Some (JStr ''hustler'')"
      by (elim conjE)
    from r2 have d: "row ''approved_at'' = Some (JTime 160)"
      "row ''updated_at'' = Some (JTime 162)"
      by (simp_all only: e)
    from r1 a b c d show ?thesis
      by (intro conjI)
  qed
  have ex: "\<exists>row. fst (approve_task example_approve_env ''t2'' ''hustler'' example_gated_store) = Inr (Some row)
          \<and> row ''title'' = Some (JStr ''Ship release'')
          \<and> dict_get row ''status'' = JStr ''BACKLOG''
          \<and> row ''approved_by'' = Some (JStr ''hustler'')
          \<and> row ''approved_at'' = Some (JTime 160)
          \<and> row ''updated_at'' = Some (JTime 162)"
    by (rule exI [where x = row]) (rule row)
  from example_gated_lookup(1) k n ex other o show ?thesis
    by (simp only: simp_thms)
qed

section \<open>Rejection\<close>

lemma rejected_row_fields:
  "patch_row trig [''status'' \<mapsto> a, ''approved_by'' \<mapsto> b, ''approved_at'' \<mapsto> c, ''updated_at'' \<mapsto> d] row ''status'' = Some a"
  "patch_row trig [''status'' \<mapsto> a, ''approved_by'' \<mapsto> b, ''approved_at'' \<mapsto> c, ''updated_at'' \<mapsto> d] row ''approved_by'' = Some b"
  "patch_row trig [''status'' \<mapsto> a, ''approved_by'' \<mapsto> b, ''approved_at'' \<mapsto> c, ''updated_at'' \<mapsto> d] row ''approved_at'' = Some c"
  by (simp_all add: patch_row_def map_add_def)

lemma reject_task_audit:
  assumes "get_task s task_id = Some current"
  shows "workforce_audit_log (snd (reject_task env task_id rejected_by reason s)) =
     workforce_audit_log s @
       [\<lparr>a_id = uuid4 (upd_audit (rej_update env)),
         a_event_type = ''TASK_UPDATED'',
         a_entity_type = ''task'',
         a_entity_id = task_id,
         a_actor = rejected_by,
         a_actor_type = (if rejected_by \<in> set agent_actors then ''agent'' else ''human''),
         a_old_value = Some (\<lambda>k. case [''status'' \<mapsto> JStr ''BACKLOG'', ''approved_by'' \<mapsto> JNull,
                                          ''approved_at'' \<mapsto> JNull,
                                          ''updated_at'' \<mapsto> JTime (upd_now (rej_update env))] k of
                                   None \<Rightarrow> None | Some _ \<Rightarrow> Some (dict_get current k)),
         a_new_value = Some [''status'' \<mapsto> JStr ''BACKLOG'', ''approved_by'' \<mapsto> JNull,
                             ''approved_at'' \<mapsto> JNull,
                             ''updated_at'' \<mapsto> JTime (upd_now (rej_update env))],
         a_metadata = Map.empty,
         a_created_at = utcnow (upd_audit (rej_update env))\<rparr>,
        \<lparr>a_id = uuid4 (rej_audit env),
         a_event_type = ''HUMAN_REJECTED'',
         a_entity_type = ''task'',
         a_entity_id = task_id,
         a_actor = rejected_by,
         a_actor_type = ''human'',
         a_old_value = None,
         a_new_value = None,
         a_metadata = [''reason'' \<mapsto> (case reason of None \<Rightarrow> JNull | Some text \<Rightarrow> JStr text)],
         a_created_at = utcnow (rej_audit env)\<rparr>]"
  by (simp add: reject_task_store [OF assms] log_audit_log jopt_def
        update_task_audit [OF assms reject_patch_no_gate])

text \<open>
  Claim C7.  For an existing task, whatever its status and approval, \<open>reject_task\<close>
  succeeds; the row it returns and the store then holds has status BACKLOG and
  \<open>approved_by\<close> and \<open>approved_at\<close> set to null.  After the TASK_UPDATED entry of the update
  it appends a HUMAN_REJECTED audit entry for the task whose metadata is the dictionary
  with the single key \<open>reason\<close>, holding the reason given as a string (null when none is
  given), and whose \<open>old_value\<close> and \<open>new_value\<close> are null.
\<close>

theorem reject_task_returns_to_backlog:
  "get_task s task_id = Some current \<longrightarrow>
     (\<exists>row updated.
         fst (reject_task env task_id rejected_by reason s) = Inr (Some row)
       \<and> get_task (snd (reject_task env task_id rejected_by reason s)) task_id = Some row
       \<and> row ''status'' = Some (JStr ''BACKLOG'')
       \<and> row ''approved_by'' = Some JNull
       \<and> row ''approved_at'' = Some JNull
       \<and> a_event_type updated = ''TASK_UPDATED''
       \<and> workforce_audit_log (snd (reject_task env task_id rejected_by reason s)) =
           workforce_audit_log s @
             [updated,
              \<lparr>a_id = uuid4 (rej_audit env),
               a_event_type = ''HUMAN_REJECTED'',
               a_entity_type = ''task'',
               a_entity_id = task_id,
               a_actor = rejected_by,
               a_actor_type = ''human'',
               a_old_value = None,
               a_new_value = None,
               a_metadata =
                 [''reason'' \<mapsto> (case reason of None \<Rightarrow> JNull | Some text \<Rightarrow> JStr text)],
               a_created_at = utcnow (rej_audit env)\<rparr>])"
proof
  assume c: "get_task s task_id = Some current"
  let ?row = "patch_row (upd_trigger_now (rej_update env))
                  [''status'' \<mapsto> JStr ''BACKLOG'', ''approved_by'' \<mapsto> JNull, ''approved_at'' \<mapsto> JNull,
                   ''updated_at'' \<mapsto> JTime (upd_now (rej_update env))] current"
  let ?updated = "\<lparr>a_id = uuid4 (upd_audit (rej_update env)),
         a_event_type = ''TASK_UPDATED'',
         a_entity_type = ''task'',
         a_entity_id = task_id,
         a_actor = rejected_by,
         a_actor_type = (if rejected_by \<in> set agent_actors then ''agent'' else ''human''),
         a_old_value = Some (\<lambda>k. case [''status'' \<mapsto> JStr ''BACKLOG'', ''approved_by'' \<mapsto> JNull,
                                          ''approved_at'' \<mapsto> JNull,
                                          ''updated_at'' \<mapsto> JTime (upd_now (rej_update env))] k of
                                   None \<Rightarrow> None | Some _ \<Rightarrow> Some (dict_get current k)),
         a_new_value = Some [''status'' \<mapsto> JStr ''BACKLOG'', ''approved_by'' \<mapsto> JNull,
                             ''approved_at'' \<mapsto> JNull,
                             ''updated_at'' \<mapsto> JTime (upd_now (rej_update env))],
         a_metadata = Map.empty,
         a_created_at = utcnow (upd_audit (rej_update env))\<rparr>"
  show "\<exists>row updated.
         fst (reject_task env task_id rejected_by reason s) = Inr (Some row)
       \<and> get_task (snd (reject_task env task_id rejected_by reason s)) task_id = Some row
       \<and> row ''status'' = Some (JStr ''BACKLOG'')
       \<and> row ''approved_by'' = Some JNull
       \<and> row ''approved_at'' = Some JNull
       \<and> a_event_type updated = ''TASK_UPDATED''
       \<and> workforce_audit_log (snd (reject_task env task_id rejected_by reason s)) =
           workforce_audit_log s @
             [updated,
              \<lparr>a_id = uuid4 (rej_audit env),
               a_event_type = ''HUMAN_REJECTED'',
               a_entity_type = ''task'',
               a_entity_id = task_id,
               a_actor = rejected_by,
               a_actor_type = ''human'',
               a_old_value = None,
               a_new_value = None,
               a_metadata =
                 [''reason'' \<mapsto> (case reason of None \<Rightarrow> JNull | Some text \<Rightarrow> JStr text)],
               a_created_at = utcnow (rej_audit env)\<rparr>]"
  proof (rule exI [where x = ?row], rule exI [where x = ?updated], intro conjI)
    show "fst (reject_task env task_id rejected_by reason s) = Inr (Some ?row)"
      by (rule reject_task_result [OF c])
    show "get_task (snd (reject_task env task_id rejected_by reason s)) task_id = Some ?row"
      by (rule reject_task_get_task [OF c])
    show "?row ''status'' = Some (JStr ''BACKLOG'')" "?row ''approved_by'' = Some JNull"
      "?row ''approved_at'' = Some JNull"
      by (simp_all only: rejected_row_fields)
    show "a_event_type ?updated = ''TASK_UPDATED''"
      by simp
    show "workforce_audit_log (snd (reject_task env task_id rejected_by reason s)) =
           workforce_audit_log s @
             [?updated,
              \<lparr>a_id = uuid4 (rej_audit env),
               a_event_type = ''HUMAN_REJECTED'',
               a_entity_type = ''task'',
               a_entity_id = task_id,
               a_actor = rejected_by,
               a_actor_type = ''human'',
               a_old_value = None,
               a_new_value = None,
               a_metadata =
                 [''reason'' \<mapsto> (case reason of None \<Rightarrow> JNull | Some text \<Rightarrow> JStr text)],
               a_created_at = utcnow (rej_audit env)\<rparr>]"
      by (rule reject_task_audit [OF c])
  qed
qed

lemma example_review_lookup:
  "get_task example_review_store ''t4'' = Some example_review_task"
  by (simp add: get_task_def example_review_store_def has_id_def example_review_task_def
        example_task_def task_data_def)

lemma example_review_fields:
  "example_review_task ''status'' = Some (JStr ''NEEDS_REVIEW'')"
  "example_review_task ''approved_by'' = Some (JStr ''hustler'')"
  "example_review_task ''approved_at'' = Some (JTime 140)"
  by (simp_all add: example_review_task_def)

lemma example_reject_env_fields:
  "uuid4 (rej_audit example_reject_env) = ''a5''"
  "utcnow (rej_audit example_reject_env) = 175"
  by (simp_all add: example_reject_env_def)

theorem reject_task_returns_to_backlog_witness:
  "get_task example_review_store ''t4'' = Some example_review_task
   \<and> example_review_task ''status'' = Some (JStr ''NEEDS_REVIEW'')
   \<and> example_review_task ''approved_by'' = Some (JStr ''hustler'')
   \<and> example_review_task ''approved_at'' = Some (JTime 140)
   \<and> (\<exists>row updated.
         fst (reject_task example_reject_env ''t4'' ''alice'' (Some ''Needs tests'')
                example_review_store) = Inr (Some row)
       \<and> get_task (snd (reject_task example_reject_env ''t4'' ''alice'' (Some ''Needs tests'')
                           example_review_store)) ''t4'' = Some row
       \<and> row ''status'' = Some (JStr ''BACKLOG'')
       \<and> row ''approved_by'' = Some JNull
       \<and> row ''approved_at'' = Some JNull
       \<and> a_event_type updated = ''TASK_UPDATED''
       \<and> workforce_audit_log (snd (reject_task example_reject_env ''t4'' ''alice''
                                     (Some ''Needs tests'') example_review_store)) =
           workforce_audit_log example_review_store @
             [updated,
              \<lparr>a_id = ''a5'',
               a_event_type = ''HUMAN_REJECTED'',
               a_entity_type = ''task'',
               a_entity_id = ''t4'',
               a_actor = ''alice'',
               a_actor_type = ''human'',
               a_old_value = None,
               a_new_value = None,
               a_metadata = [''reason'' \<mapsto> JStr ''Needs tests''],
               a_created_at = 175\<rparr>])"
proof -
  note t = reject_task_returns_to_backlog
          [of example_review_store "''t4''" example_review_task example_reject_env "''alice''"
              "Some ''Needs tests''", THEN mp, OF example_review_lookup]
  from t have t': "\<exists>row updated.
         fst (reject_task example_reject_env ''t4'' ''alice'' (Some ''Needs tests'')
                example_review_store) = Inr (Some row)
       \<and> get_task (snd (reject_task example_reject_env ''t4'' ''alice'' (Some ''Needs tests'')
                           example_review_store)) ''t4'' = Some row
       \<and> row ''status'' = Some (JStr ''BACKLOG'')
       \<and> row ''approved_by'' = Some JNull
       \<and> row ''approved_at'' = Some JNull
       \<and> a_event_type updated = ''TASK_UPDATED''
       \<and> workforce_audit_log (snd (reject_task example_reject_env ''t4'' ''alice''
                                     (Some ''Needs tests'') example_review_store)) =
           workforce_audit_log example_review_store @
             [updated,
              \<lparr>a_id = ''a5'',
               a_event_type = ''HUMAN_REJECTED'',
               a_entity_type = ''task'',
               a_entity_id = ''t4'',
               a_actor = ''alice'',
               a_actor_type = ''human'',
               a_old_value = None,
               a_new_value = None,
               a_metadata = [''reason'' \<mapsto> JStr ''Needs tests''],
               a_created_at = 175\<rparr>]"
    by (simp only: example_reject_env_fields option.case)
  from example_review_lookup example_review_fields t' show ?thesis
    by (intro conjI)
qed


section \<open>Status events\<close>

lemma example_update_env_fields:
  "upd_now example_update_env = 200"
  "upd_trigger_now example_update_env = 201"
  "upd_audit example_update_env = \<lparr>uuid4 = ''a1'', utcnow = 202\<rparr>"
  "upd_event example_update_env = \<lparr>uuid4 = ''e1'', utcnow = 203\<rparr>"
  by (simp_all add: example_update_env_def)

lemma example_store_tables:
  "workforce_events example_store = []"
  "workforce_audit_log example_store = []"
  "workforce_deliverables example_store = []"
  by (simp_all add: example_store_def)

text \<open>
  Every value of \<^verbatim>\<open>TaskStatus\<close> is a non-empty string, hence true in Python's sense.
\<close>

lemma TaskStatus_truthy: "status \<in> set TaskStatus_values \<Longrightarrow> truthy (JStr status)"
  by (auto simp: TaskStatus_values_def)

lemma status_change_guard:
  assumes "updates ''status'' = None \<or> truthy (dict_get updates ''status'')"
  shows "(truthy (dict_get updates ''status'') \<and> dict_get updates ''status'' \<noteq> old)
         = (updates ''status'' \<noteq> None \<and> dict_get updates ''status'' \<noteq> old)"
  using assms by (cases "updates ''status''") (simp_all add: dict_get_def)

text \<open>
  Claim C5.  Take a successful \<open>update_task\<close> whose patch has no \<open>status\<close> key or gives a
  status that is true in Python's sense, as every status of the task lifecycle is.  When
  the patch gives a status different from the task's current one, exactly one event is
  appended: unprocessed, of type STATUS_CHANGED, with payload
  \<open>{task_id, old_status, new_status}\<close>.  When the status does not change, and in particular
  when the patch has no \<open>status\<close> key, no event is appended.
\<close>

theorem update_task_status_event:
  "fst (update_task env task_id actor updates s) = Inr r
   \<and> (updates ''status'' = None \<or> truthy (dict_get updates ''status'')) \<longrightarrow>
     (\<exists>current. get_task s task_id = Some current
        \<and> workforce_events (snd (update_task env task_id actor updates s)) =
            workforce_events s @
              (if updates ''status'' \<noteq> None
                  \<and> dict_get updates ''status'' \<noteq> dict_get current ''status''
               then [\<lparr>e_id = uuid4 (upd_event env),
                      e_event_type = ''STATUS_CHANGED'',
                      e_payload = [''task_id'' \<mapsto> JStr task_id,
                                   ''old_status'' \<mapsto> dict_get current ''status'',
                                   ''new_status'' \<mapsto> dict_get updates ''status''],
                      e_processed = False,
                      e_created_at = utcnow (upd_event env)\<rparr>]
               else []))
     \<and> (updates ''status'' = None \<longrightarrow>
           workforce_events (snd (update_task env task_id actor updates s)) = workforce_events s)"
proof
  assume h: "fst (update_task env task_id actor updates s) = Inr r
   \<and> (updates ''status'' = None \<or> truthy (dict_get updates ''status''))"
  note ok = h [THEN conjunct1] and valid = h [THEN conjunct2]
  from update_task_succeeded [OF ok] obtain current where
    cg: "get_task s task_id = Some current
     \<and> \<not> (dict_get updates ''status'' = JStr ''DONE'' \<and> dict_get current ''status'' \<noteq> JStr ''DONE''
            \<and> (get_deliverables s task_id = []
                \<or> truthy (dict_get current ''requires_approval'')
                   \<and> \<not> truthy (dict_get current ''approved_by'')))" ..
  note c = cg [THEN conjunct1] and g = cg [THEN conjunct2]
  note ev = update_task_events [OF c g, of env actor]
  have ev': "workforce_events (snd (update_task env task_id actor updates s)) =
            workforce_events s @
              (if updates ''status'' \<noteq> None
                  \<and> dict_get updates ''status'' \<noteq> dict_get current ''status''
               then [\<lparr>e_id = uuid4 (upd_event env),
                      e_event_type = ''STATUS_CHANGED'',
                      e_payload = [''task_id'' \<mapsto> JStr task_id,
                                   ''old_status'' \<mapsto> dict_get current ''status'',
                                   ''new_status'' \<mapsto> dict_get updates ''status''],
                      e_processed = False,
                      e_created_at = utcnow (upd_event env)\<rparr>]
               else [])"
    using ev by (simp only: status_change_guard [OF valid])
  have first: "\<exists>current. get_task s task_id = Some current
        \<and> workforce_events (snd (update_task env task_id actor updates s)) =
            workforce_events s @
              (if updates ''status'' \<noteq> None
                  \<and> dict_get updates ''status'' \<noteq> dict_get current ''status''
               then [\<lparr>e_id = uuid4 (upd_event env),
                      e_event_type = ''STATUS_CHANGED'',
                      e_payload = [''task_id'' \<mapsto> JStr task_id,
                                   ''old_status'' \<mapsto> dict_get current ''status'',
                                   ''new_status'' \<mapsto> dict_get updates ''status''],
                      e_processed = False,
                      e_created_at = utcnow (upd_event env)\<rparr>]
               else [])"
    by (rule exI [where x = current]) (rule conjI [OF c ev'])
  have second: "updates ''status'' = None \<longrightarrow>
           workforce_events (snd (update_task env task_id actor updates s)) = workforce_events s"
  proof
    assume "updates ''status'' = None"
    then show "workforce_events (snd (update_task env task_id actor updates s)) = workforce_events s"
      by (simp add: ev')
  qed
  from first second show "(\<exists>current. get_task s task_id = Some current
        \<and> workforce_events (snd (update_task env task_id actor updates s)) =
            workforce_events s @
              (if updates ''status'' \<noteq> None
                  \<and> dict_get updates ''status'' \<noteq> dict_get current ''status''
               then [\<lparr>e_id = uuid4 (upd_event env),
                      e_event_type = ''STATUS_CHANGED'',
                      e_payload = [''task_id'' \<mapsto> JStr task_id,
                                   ''old_status'' \<mapsto> dict_get current ''status'',
                                   ''new_status'' \<mapsto> dict_get updates ''status''],
                      e_processed = False,
                      e_created_at = utcnow (upd_event env)\<rparr>]
               else []))
     \<and> (updates ''status'' = None \<longrightarrow>
           workforce_events (snd (update_task env task_id actor updates s)) = workforce_events s)"
    by (rule conjI)
qed

theorem update_task_status_event_witness:
  "fst (update_task example_update_env ''t1'' ''alice'' [''status'' \<mapsto> JStr ''IN_PROGRESS'']
          example_store)
     = Inr (Some (patch_row 201 [''status'' \<mapsto> JStr ''IN_PROGRESS'', ''updated_at'' \<mapsto> JTime 200]
                    example_task))
   \<and> truthy (dict_get [''status'' \<mapsto> JStr ''IN_PROGRESS''] ''status'')
   \<and> dict_get example_task ''status'' = JStr ''BACKLOG''
   \<and> workforce_events (snd (update_task example_update_env ''t1'' ''alice''
                               [''status'' \<mapsto> JStr ''IN_PROGRESS''] example_store))
       = [\<lparr>e_id = ''e1'',
           e_event_type = ''STATUS_CHANGED'',
           e_payload = [''task_id'' \<mapsto> JStr ''t1'',
                        ''old_status'' \<mapsto> JStr ''BACKLOG'',
                        ''new_status'' \<mapsto> JStr ''IN_PROGRESS''],
           e_processed = False,
           e_created_at = 203\<rparr>]
   \<and> fst (update_task example_update_env ''t1'' ''alice'' [''title'' \<mapsto> JStr ''Write the report'']
            example_store)
       = Inr (Some (patch_row 201 [''title'' \<mapsto> JStr ''Write the report'', ''updated_at'' \<mapsto> JTime 200]
                      example_task))
   \<and> [''title'' \<mapsto> JStr ''Write the report''] ''status'' = None
   \<and> workforce_events (snd (update_task example_update_env ''t1'' ''alice''
                               [''title'' \<mapsto> JStr ''Write the report''] example_store))
       = []"
proof -
  have p1: "dict_get [''status'' \<mapsto> JStr ''IN_PROGRESS''] ''status'' = JStr ''IN_PROGRESS''"
    by (simp add: dict_get_def)
  have q1: "[''status'' \<mapsto> JStr ''IN_PROGRESS''] ''status'' \<noteq> None"
    by simp
  have v1: "truthy (dict_get [''status'' \<mapsto> JStr ''IN_PROGRESS''] ''status'')"
    by (simp add: p1)
  have g1: "\<not> (dict_get [''status'' \<mapsto> JStr ''IN_PROGRESS''] ''status'' = JStr ''DONE''
            \<and> dict_get example_task ''status'' \<noteq> JStr ''DONE''
            \<and> (get_deliverables example_store ''t1'' = []
                \<or> truthy (dict_get example_task ''requires_approval'')
                   \<and> \<not> truthy (dict_get example_task ''approved_by'')))"
    by (simp add: p1)
  have r1: "fst (update_task example_update_env ''t1'' ''alice'' [''status'' \<mapsto> JStr ''IN_PROGRESS'']
          example_store)
     = Inr (Some (patch_row 201 [''status'' \<mapsto> JStr ''IN_PROGRESS'', ''updated_at'' \<mapsto> JTime 200]
                    example_task))"
    using update_task_result [OF example_task_lookup g1, of example_update_env "''alice''"]
    by (simp only: example_update_env_fields)
  have h1: "fst (update_task example_update_env ''t1'' ''alice'' [''status'' \<mapsto> JStr ''IN_PROGRESS'']
          example_store)
     = Inr (Some (patch_row 201 [''status'' \<mapsto> JStr ''IN_PROGRESS'', ''updated_at'' \<mapsto> JTime 200]
                    example_task))
   \<and> ([''status'' \<mapsto> JStr ''IN_PROGRESS''] ''status'' = None
      \<or> truthy (dict_get [''status'' \<mapsto> JStr ''IN_PROGRESS''] ''status''))"
    by (rule conjI [OF r1 disjI2 [OF v1]])
  note t1 = update_task_status_event
      [of example_update_env "''t1''" "''alice''" "[''status'' \<mapsto> JStr ''IN_PROGRESS'']"
          example_store, THEN mp, OF h1, THEN conjunct1]
  from t1 obtain current where
    cg: "get_task example_store ''t1'' = Some current
        \<and> workforce_events (snd (update_task example_update_env ''t1'' ''alice''
                                   [''status'' \<mapsto> JStr ''IN_PROGRESS''] example_store)) =
            workforce_events example_store @
              (if [''status'' \<mapsto> JStr ''IN_PROGRESS''] ''status'' \<noteq> None
                  \<and> dict_get [''status'' \<mapsto> JStr ''IN_PROGRESS''] ''status'' \<noteq> dict_get current ''status''
               then [\<lparr>e_id = uuid4 (upd_event example_update_env),
                      e_event_type = ''STATUS_CHANGED'',
                      e_payload = [''task_id'' \<mapsto> JStr ''t1'',
                                   ''old_status'' \<mapsto> dict_get current ''status'',
                                   ''new_status'' \<mapsto> dict_get [''status'' \<mapsto> JStr ''IN_PROGRESS''] ''status''],
                      e_processed = False,
                      e_created_at = utcnow (upd_event example_update_env)\<rparr>]
               else [])" ..
  from cg [THEN conjunct1] have c: "current = example_task"
    by (simp only: example_task_lookup option.inject)
  have st: "dict_get current ''status'' = JStr ''BACKLOG''"
    by (simp only: c example_task_fields)
  have e1: "workforce_events (snd (update_task example_update_env ''t1'' ''alice''
                               [''status'' \<mapsto> JStr ''IN_PROGRESS''] example_store))
       = [\<lparr>e_id = ''e1'',
           e_event_type = ''STATUS_CHANGED'',
           e_payload = [''task_id'' \<mapsto> JStr ''t1'',
                        ''old_status'' \<mapsto> JStr ''BACKLOG'',
                        ''new_status'' \<mapsto> JStr ''IN_PROGRESS''],
           e_processed = False,
           e_created_at = 203\<rparr>]"
    using q1
    by (simp add: cg [THEN conjunct2] p1 st example_store_tables example_update_env_fields)
  have p2: "[''title'' \<mapsto> JStr ''Write the report''] ''status'' = None"
    by simp
  have g2: "\<not> (dict_get [''title'' \<mapsto> JStr ''Write the report''] ''status'' = JStr ''DONE''
            \<and> dict_get example_task ''status'' \<noteq> JStr ''DONE''
            \<and> (get_deliverables example_store ''t1'' = []
                \<or> truthy (dict_get example_task ''requires_approval'')
                   \<and> \<not> truthy (dict_get example_task ''approved_by'')))"
    by (simp add: dict_get_def)
  have r2: "fst (update_task example_update_env ''t1'' ''alice'' [''title'' \<mapsto> JStr ''Write the report'']
            example_store)
       = Inr (Some (patch_row 201 [''title'' \<mapsto> JStr ''Write the report'', ''updated_at'' \<mapsto> JTime 200]
                      example_task))"
    using update_task_result [OF example_task_lookup g2, of example_update_env "''alice''"]
    by (simp only: example_update_env_fields)
  have h2: "fst (update_task example_update_env ''t1'' ''alice'' [''title'' \<mapsto> JStr ''Write the report'']
            example_store)
       = Inr (Some (patch_row 201 [''title'' \<mapsto> JStr ''Write the report'', ''updated_at'' \<mapsto> JTime 200]
                      example_task))
   \<and> ([''title'' \<mapsto> JStr ''Write the report''] ''status'' = None
      \<or> truthy (dict_get [''title'' \<mapsto> JStr ''Write the report''] ''status''))"
    by (rule conjI [OF r2 disjI1 [OF p2]])
  note t2 = update_task_status_event
      [of example_update_env "''t1''" "''alice''" "[''title'' \<mapsto> JStr ''Write the report'']"
          example_store, THEN mp, OF h2, THEN conjunct2, THEN mp, OF p2]
  have e2: "workforce_events (snd (update_task example_update_env ''t1'' ''alice''
                               [''title'' \<mapsto> JStr ''Write the report''] example_store))
       = []"
    by (simp only: t2 example_store_tables)
  from r1 v1 example_task_fields(1) e1 r2 p2 e2 show ?thesis
    by (intro conjI)
qed


section \<open>Audit entries per operation\<close>

lemma approve_task_audit:
  assumes "get_task s task_id = Some current"
  shows "workforce_audit_log (snd (approve_task env task_id approved_by s)) =
     workforce_audit_log s @
       [\<lparr>a_id = uuid4 (upd_audit (apr_update env)),
         a_event_type = ''TASK_UPDATED'',
         a_entity_type = ''task'',
         a_entity_id = task_id,
         a_actor = approved_by,
         a_actor_type = (if approved_by \<in> set agent_actors then ''agent'' else ''human''),
         a_old_value = Some (\<lambda>k. case [''approved_by'' \<mapsto> JStr approved_by,
                                          ''approved_at'' \<mapsto> JTime (apr_now env),
                                          ''updated_at'' \<mapsto> JTime (upd_now (apr_update env))] k of
                                   None \<Rightarrow> None | Some _ \<Rightarrow> Some (dict_get current k)),
         a_new_value = Some [''approved_by'' \<mapsto> JStr approved_by,
                             ''approved_at'' \<mapsto> JTime (apr_now env),
                             ''updated_at'' \<mapsto> JTime (upd_now (apr_update env))],
         a_metadata = Map.empty,
         a_created_at = utcnow (upd_audit (apr_update env))\<rparr>,
        \<lparr>a_id = uuid4 (apr_audit env),
         a_event_type = ''HUMAN_APPROVED'',
         a_entity_type = ''task'',
         a_entity_id = task_id,
         a_actor = approved_by,
         a_actor_type = ''human'',
         a_old_value = None,
         a_new_value = Some [''approved_at'' \<mapsto> JTime (apr_now env)],
         a_metadata = Map.empty,
         a_created_at = utcnow (apr_audit env)\<rparr>]"
  by (simp add: approve_task_store [OF assms] log_audit_log
        update_task_audit [OF assms approve_patch_no_gate])

lemma two_entries:
  assumes "xs = ys @ [e1, e2]" and "a_event_type e1 = t1" and "a_entity_id e1 = i"
    and "a_event_type e2 = t2" and "a_entity_id e2 = i"
  shows "\<exists>e1 e2. xs = ys @ [e1, e2] \<and> a_event_type e1 = t1 \<and> a_entity_id e1 = i
           \<and> a_event_type e2 = t2 \<and> a_entity_id e2 = i"
  using assms by blast

lemma approve_task_two_entries:
  assumes "get_task s task_id = Some current"
  shows "\<exists>e1 e2. workforce_audit_log (snd (approve_task env task_id approved_by s)) =
             workforce_audit_log s @ [e1, e2]
           \<and> a_event_type e1 = ''TASK_UPDATED'' \<and> a_entity_id e1 = task_id
           \<and> a_event_type e2 = ''HUMAN_APPROVED'' \<and> a_entity_id e2 = task_id"
  by (rule two_entries [OF approve_task_audit [OF assms]]) simp_all

lemma reject_task_two_entries:
  assumes "get_task s task_id = Some current"
  shows "\<exists>e1 e2. workforce_audit_log (snd (reject_task env task_id rejected_by reason s)) =
             workforce_audit_log s @ [e1, e2]
           \<and> a_event_type e1 = ''TASK_UPDATED'' \<and> a_entity_id e1 = task_id
           \<and> a_event_type e2 = ''HUMAN_REJECTED'' \<and> a_entity_id e2 = task_id"
  by (rule two_entries [OF reject_task_audit [OF assms]]) simp_all

lemma one_entry:
  assumes "xs = ys @ [e]" and "a_event_type e = t" and "P (a_entity_id e)"
  shows "\<exists>e. xs = ys @ [e] \<and> a_event_type e = t \<and> P (a_entity_id e)"
  using assms by blast

lemma update_task_one_entry:
  assumes "fst (update_task env task_id actor updates s) = Inr r"
  shows "\<exists>e. workforce_audit_log (snd (update_task env task_id actor updates s)) =
             workforce_audit_log s @ [e]
           \<and> a_event_type e = ''TASK_UPDATED'' \<and> a_entity_id e = task_id"
proof -
  from update_task_succeeded [OF assms] obtain current where
    cg: "get_task s task_id = Some current
     \<and> \<not> (dict_get updates ''status'' = JStr ''DONE'' \<and> dict_get current ''status'' \<noteq> JStr ''DONE''
            \<and> (get_deliverables s task_id = []
                \<or> truthy (dict_get current ''requires_approval'')
                   \<and> \<not> truthy (dict_get current ''approved_by'')))" ..
  show ?thesis
    by (rule one_entry [where P = "\<lambda>i. i = task_id",
          OF update_task_audit [OF cg [THEN conjunct1] cg [THEN conjunct2]]]) simp_all
qed

lemma create_task_one_entry:
  "\<exists>e. workforce_audit_log (snd (create_task env a s)) = workforce_audit_log s @ [e]
       \<and> a_event_type e = ''TASK_CREATED''
       \<and> fst (create_task env a s) ''id'' = Some (JStr (a_entity_id e))"
  by (rule one_entry [where P = "\<lambda>i. fst (create_task env a s) ''id'' = Some (JStr i)"
        and e = "\<lparr>a_id = uuid4 (crt_audit env), a_event_type = ''TASK_CREATED'',
                 a_entity_type = ''task'', a_entity_id = crt_task_id env,
                 a_actor = f_assigned_by a,
                 a_actor_type = (if f_assigned_by a \<in> set [''jarvis'', ''system'']
                                 then ''agent'' else ''human''),
                 a_old_value = None,
                 a_new_value = Some (task_data (crt_task_id env) (crt_now env) a),
                 a_metadata = Map.empty, a_created_at = utcnow (crt_audit env)\<rparr>"])
     (simp_all add: create_task_def Let_def log_audit_def create_event_def task_data_def)

lemma add_deliverable_one_entry:
  "\<exists>e. workforce_audit_log
          (snd (add_deliverable env task_id title content created_by content_type is_final s))
          = workforce_audit_log s @ [e]
       \<and> a_event_type e = ''DELIVERABLE_ADDED''
       \<and> a_entity_id e
           = d_id (fst (add_deliverable env task_id title content created_by content_type
                          is_final s))"
  by (rule one_entry [where P = "\<lambda>i. i = d_id (fst (add_deliverable env task_id title content
                                          created_by content_type is_final s))"
        and e = "\<lparr>a_id = uuid4 (add_audit env), a_event_type = ''DELIVERABLE_ADDED'',
                 a_entity_type = ''deliverable'', a_entity_id = uuid4 (add_row env),
                 a_actor = created_by, a_actor_type = ''agent'', a_old_value = None,
                 a_new_value = Some [''task_id'' \<mapsto> JStr task_id, ''title'' \<mapsto> JStr title],
                 a_metadata = Map.empty, a_created_at = utcnow (add_audit env)\<rparr>"])
     (simp_all add: add_deliverable_def Let_def log_audit_def)

lemma add_insight_one_entry:
  "\<exists>e. workforce_audit_log (snd (add_insight env agent content task_id insight_type s))
          = workforce_audit_log s @ [e]
       \<and> a_event_type e = ''INSIGHT_ADDED''
       \<and> a_entity_id e = i_id (fst (add_insight env agent content task_id insight_type s))"
  by (rule one_entry [where P = "\<lambda>i. i = i_id (fst (add_insight env agent content task_id
                                          insight_type s))"
        and e = "\<lparr>a_id = uuid4 (add_audit env), a_event_type = ''INSIGHT_ADDED'',
                 a_entity_type = ''insight'', a_entity_id = uuid4 (add_row env),
                 a_actor = agent, a_actor_type = ''agent'', a_old_value = None,
                 a_new_value = Some [''task_id'' \<mapsto> jopt task_id, ''type'' \<mapsto> JStr insight_type],
                 a_metadata = Map.empty, a_created_at = utcnow (add_audit env)\<rparr>"])
     (simp_all add: add_insight_def Let_def log_audit_def)

text \<open>
  Claim C4, as stated, fails for approvals: a successful \<open>approve_task\<close> leaves the audit
  log two entries longer, the TASK_UPDATED entry of its \<open>update_task\<close> and its own
  HUMAN_APPROVED entry.
\<close>

theorem approve_task_two_audit_entries_counterexample:
  "\<not> isl (fst (approve_task example_approve_env ''t2'' ''hustler'' example_gated_store))
   \<and> length (workforce_audit_log
               (snd (approve_task example_approve_env ''t2'' ''hustler'' example_gated_store)))
       = length (workforce_audit_log example_gated_store) + 2"
  by (simp add: approve_task_result [OF example_gated_lookup(1)]
        approve_task_audit [OF example_gated_lookup(1)])

text \<open>
  Claim C4, amended.  \<open>create_task\<close>, \<open>add_deliverable\<close> and \<open>add_insight\<close>, and every
  successful \<open>update_task\<close>, append exactly one audit entry; every successful
  \<open>approve_task\<close> and \<open>reject_task\<close> appends exactly two, the TASK_UPDATED entry of the
  update followed by HUMAN_APPROVED or HUMAN_REJECTED.  The \<open>entity_id\<close> of every appended
  entry is the id of the entity the operation created or changed.
\<close>

theorem audit_entries_per_operation:
  "(\<exists>e. workforce_audit_log (snd (create_task cenv a s)) = workforce_audit_log s @ [e]
        \<and> a_event_type e = ''TASK_CREATED''
        \<and> fst (create_task cenv a s) ''id'' = Some (JStr (a_entity_id e)))
   \<and> (fst (update_task uenv task_id actor updates s) = Inr r \<longrightarrow>
        (\<exists>e. workforce_audit_log (snd (update_task uenv task_id actor updates s)) =
                workforce_audit_log s @ [e]
            \<and> a_event_type e = ''TASK_UPDATED'' \<and> a_entity_id e = task_id))
   \<and> (fst (approve_task aenv task_id actor s) = Inr r \<longrightarrow>
        (\<exists>e1 e2. workforce_audit_log (snd (approve_task aenv task_id actor s)) =
                workforce_audit_log s @ [e1, e2]
            \<and> a_event_type e1 = ''TASK_UPDATED'' \<and> a_entity_id e1 = task_id
            \<and> a_event_type e2 = ''HUMAN_APPROVED'' \<and> a_entity_id e2 = task_id))
   \<and> (fst (reject_task renv task_id actor reason s) = Inr r \<longrightarrow>
        (\<exists>e1 e2. workforce_audit_log (snd (reject_task renv task_id actor reason s)) =
                workforce_audit_log s @ [e1, e2]
            \<and> a_event_type e1 = ''TASK_UPDATED'' \<and> a_entity_id e1 = task_id
            \<and> a_event_type e2 = ''HUMAN_REJECTED'' \<and> a_entity_id e2 = task_id))
   \<and> (\<exists>e. workforce_audit_log
              (snd (add_deliverable denv task_id title content actor content_type is_final s))
              = workforce_audit_log s @ [e]
        \<and> a_event_type e = ''DELIVERABLE_ADDED''
        \<and> a_entity_id e
            = d_id (fst (add_deliverable denv task_id title content actor content_type
                           is_final s)))
   \<and> (\<exists>e. workforce_audit_log (snd (add_insight denv actor content linked insight_type s))
              = workforce_audit_log s @ [e]
        \<and> a_event_type e = ''INSIGHT_ADDED''
        \<and> a_entity_id e = i_id (fst (add_insight denv actor content linked insight_type s)))"
proof (intro conjI impI)
  show "\<exists>e. workforce_audit_log (snd (create_task cenv a s)) = workforce_audit_log s @ [e]
        \<and> a_event_type e = ''TASK_CREATED''
        \<and> fst (create_task cenv a s) ''id'' = Some (JStr (a_entity_id e))"
    by (rule create_task_one_entry)
  show "\<exists>e. workforce_audit_log
              (snd (add_deliverable denv task_id title content actor content_type is_final s))
              = workforce_audit_log s @ [e]
        \<and> a_event_type e = ''DELIVERABLE_ADDED''
        \<and> a_entity_id e
            = d_id (fst (add_deliverable denv task_id title content actor content_type
                           is_final s))"
    by (rule add_deliverable_one_entry)
  show "\<exists>e. workforce_audit_log (snd (add_insight denv actor content linked insight_type s))
              = workforce_audit_log s @ [e]
        \<and> a_event_type e = ''INSIGHT_ADDED''
        \<and> a_entity_id e = i_id (fst (add_insight denv actor content linked insight_type s))"
    by (rule add_insight_one_entry)
next
  assume "fst (update_task uenv task_id actor updates s) = Inr r"
  then show "\<exists>e. workforce_audit_log (snd (update_task uenv task_id actor updates s)) =
                workforce_audit_log s @ [e]
            \<and> a_event_type e = ''TASK_UPDATED'' \<and> a_entity_id e = task_id"
    by (rule update_task_one_entry)
next
  assume "fst (approve_task aenv task_id actor s) = Inr r"
  from approve_task_succeeded [OF this] obtain current where
    c: "get_task s task_id = Some current" ..
  show "\<exists>e1 e2. workforce_audit_log (snd (approve_task aenv task_id actor s)) =
                workforce_audit_log s @ [e1, e2]
            \<and> a_event_type e1 = ''TASK_UPDATED'' \<and> a_entity_id e1 = task_id
            \<and> a_event_type e2 = ''HUMAN_APPROVED'' \<and> a_entity_id e2 = task_id"
    by (rule approve_task_two_entries [OF c])
next
  assume "fst (reject_task renv task_id actor reason s) = Inr r"
  from reject_task_succeeded [OF this] obtain current where
    c: "get_task s task_id = Some current" ..
  show "\<exists>e1 e2. workforce_audit_log (snd (reject_task renv task_id actor reason s)) =
                workforce_audit_log s @ [e1, e2]
            \<and> a_event_type e1 = ''TASK_UPDATED'' \<and> a_entity_id e1 = task_id
            \<and> a_event_type e2 = ''HUMAN_REJECTED'' \<and> a_entity_id e2 = task_id"
    by (rule reject_task_two_entries [OF c])
qed

lemma example_update_in_progress:
  "fst (update_task example_update_env ''t1'' ''alice'' [''status'' \<mapsto> JStr ''IN_PROGRESS'']
          example_store)
     = Inr (Some (patch_row 201 [''status'' \<mapsto> JStr ''IN_PROGRESS'', ''updated_at'' \<mapsto> JTime 200]
                    example_task))"
proof -
  have g: "\<not> (dict_get [''status'' \<mapsto> JStr ''IN_PROGRESS''] ''status'' = JStr ''DONE''
            \<and> dict_get example_task ''status'' \<noteq> JStr ''DONE''
            \<and> (get_deliverables example_store ''t1'' = []
                \<or> truthy (dict_get example_task ''requires_approval'')
                   \<and> \<not> truthy (dict_get example_task ''approved_by'')))"
    by (simp add: dict_get_def)
  show ?thesis
    using update_task_result [OF example_task_lookup g, of example_update_env "''alice''"]
    by (simp only: example_update_env_fields)
qed

theorem audit_entries_per_operation_witness:
  "fst (update_task example_update_env ''t1'' ''alice'' [''status'' \<mapsto> JStr ''IN_PROGRESS'']
          example_store)
     = Inr (Some (patch_row 201 [''status'' \<mapsto> JStr ''IN_PROGRESS'', ''updated_at'' \<mapsto> JTime 200]
                    example_task))
   \<and> (\<exists>e. workforce_audit_log
              (snd (update_task example_update_env ''t1'' ''alice''
                      [''status'' \<mapsto> JStr ''IN_PROGRESS''] example_store)) =
              workforce_audit_log example_store @ [e]
          \<and> a_event_type e = ''TASK_UPDATED'' \<and> a_entity_id e = ''t1'')
   \<and> fst (approve_task example_approve_env ''t2'' ''hustler'' example_gated_store)
       = Inr (Some (patch_row (upd_trigger_now (apr_update example_approve_env))
                  [''approved_by'' \<mapsto> JStr ''hustler'',
                   ''approved_at'' \<mapsto> JTime (apr_now example_approve_env),
                   ''updated_at'' \<mapsto> JTime (upd_now (apr_update example_approve_env))]
                  example_gated_task))
   \<and> (\<exists>e1 e2. workforce_audit_log
                  (snd (approve_task example_approve_env ''t2'' ''hustler'' example_gated_store)) =
                workforce_audit_log example_gated_store @ [e1, e2]
            \<and> a_event_type e1 = ''TASK_UPDATED'' \<and> a_entity_id e1 = ''t2''
            \<and> a_event_type e2 = ''HUMAN_APPROVED'' \<and> a_entity_id e2 = ''t2'')
   \<and> fst (reject_task example_reject_env ''t2'' ''hustler'' (Some ''Needs tests'')
            example_gated_store)
       = Inr (Some (patch_row (upd_trigger_now (rej_update example_reject_env))
                  [''status'' \<mapsto> JStr ''BACKLOG'', ''approved_by'' \<mapsto> JNull,
                   ''approved_at'' \<mapsto> JNull,
                   ''updated_at'' \<mapsto> JTime (upd_now (rej_update example_reject_env))]
                  example_gated_task))
   \<and> (\<exists>e1 e2. workforce_audit_log
                  (snd (reject_task example_reject_env ''t2'' ''hustler'' (Some ''Needs tests'')
                          example_gated_store)) =
                workforce_audit_log example_gated_store @ [e1, e2]
            \<and> a_event_type e1 = ''TASK_UPDATED'' \<and> a_entity_id e1 = ''t2''
            \<and> a_event_type e2 = ''HUMAN_REJECTED'' \<and> a_entity_id e2 = ''t2'')"
proof (intro conjI)
  note ap = approve_task_result [OF example_gated_lookup(1), of example_approve_env "''hustler''"]
  note rj = reject_task_result [OF example_gated_lookup(1), of example_reject_env "''hustler''"
              "Some ''Needs tests''"]
  show "fst (update_task example_update_env ''t1'' ''alice'' [''status'' \<mapsto> JStr ''IN_PROGRESS'']
          example_store)
     = Inr (Some (patch_row 201 [''status'' \<mapsto> JStr ''IN_PROGRESS'', ''updated_at'' \<mapsto> JTime 200]
                    example_task))"
    by (rule example_update_in_progress)
  show "\<exists>e. workforce_audit_log
              (snd (update_task example_update_env ''t1'' ''alice''
                      [''status'' \<mapsto> JStr ''IN_PROGRESS''] example_store)) =
              workforce_audit_log example_store @ [e]
          \<and> a_event_type e = ''TASK_UPDATED'' \<and> a_entity_id e = ''t1''"
    by (rule audit_entries_per_operation
          [where s = example_store and task_id = "''t1''" and uenv = example_update_env
             and actor = "''alice''" and updates = "[''status'' \<mapsto> JStr ''IN_PROGRESS'']",
           THEN conjunct2, THEN conjunct1, THEN mp, OF example_update_in_progress])
  show "fst (approve_task example_approve_env ''t2'' ''hustler'' example_gated_store)
       = Inr (Some (patch_row (upd_trigger_now (apr_update example_approve_env))
                  [''approved_by'' \<mapsto> JStr ''hustler'',
                   ''approved_at'' \<mapsto> JTime (apr_now example_approve_env),
                   ''updated_at'' \<mapsto> JTime (upd_now (apr_update example_approve_env))]
                  example_gated_task))"
    by (rule ap)
  show "\<exists>e1 e2. workforce_audit_log
                  (snd (approve_task example_approve_env ''t2'' ''hustler'' example_gated_store)) =
                workforce_audit_log example_gated_store @ [e1, e2]
            \<and> a_event_type e1 = ''TASK_UPDATED'' \<and> a_entity_id e1 = ''t2''
            \<and> a_event_type e2 = ''HUMAN_APPROVED'' \<and> a_entity_id e2 = ''t2''"
    by (rule audit_entries_per_operation
          [where s = example_gated_store and task_id = "''t2''" and aenv = example_approve_env
             and actor = "''hustler''",
           THEN conjunct2, THEN conjunct2, THEN conjunct1, THEN mp, OF ap])
  show "fst (reject_task example_reject_env ''t2'' ''hustler'' (Some ''Needs tests'')
            example_gated_store)
       = Inr (Some (patch_row (upd_trigger_now (rej_update example_reject_env))
                  [''status'' \<mapsto> JStr ''BACKLOG'', ''approved_by'' \<mapsto> JNull,
                   ''approved_at'' \<mapsto> JNull,
                   ''updated_at'' \<mapsto> JTime (upd_now (rej_update example_reject_env))]
                  example_gated_task))"
    by (rule rj)
  show "\<exists>e1 e2. workforce_audit_log
                  (snd (reject_task example_reject_env ''t2'' ''hustler'' (Some ''Needs tests'')
                          example_gated_store)) =
                workforce_audit_log example_gated_store @ [e1, e2]
            \<and> a_event_type e1 = ''TASK_UPDATED'' \<and> a_entity_id e1 = ''t2''
            \<and> a_event_type e2 = ''HUMAN_REJECTED'' \<and> a_entity_id e2 = ''t2''"
    by (rule audit_entries_per_operation
          [where s = example_gated_store and task_id = "''t2''" and renv = example_reject_env
             and actor = "''hustler''" and reason = "Some ''Needs tests''",
           THEN conjunct2, THEN conjunct2, THEN conjunct2, THEN conjunct1, THEN mp, OF rj])
qed

section \<open>Promotion of an insight\<close>

lemma find_filter:
  "find P xs = (case filter P xs of [] \<Rightarrow> None | x # _ \<Rightarrow> Some x)"
  by (induction xs) simp_all

lemma create_task_row:
  "fst (create_task env a s) = task_data (crt_task_id env) (crt_now env) a"
  "workforce_tasks (snd (create_task env a s)) =
     workforce_tasks s @ [task_data (crt_task_id env) (crt_now env) a]"
  "workforce_insights (snd (create_task env a s)) = workforce_insights s"
  by (simp_all add: create_task_def Let_def log_audit_def create_event_def)

lemma task_data_fields:
  "task_data task_id now a ''id'' = Some (JStr task_id)"
  "task_data task_id now a ''title'' = Some (JStr (f_title a))"
  "task_data task_id now a ''description'' = Some (jopt (f_description a))"
  "task_data task_id now a ''source'' = Some (JStr (f_source a))"
  "task_data task_id now a ''status'' = Some (JStr ''BACKLOG'')"
  by (simp_all add: task_data_def)

lemma promote_absent:
  assumes "find (\<lambda>i. i_id i = insight_id) (workforce_insights s) = None"
  shows "promote_insight_to_task env insight_id promoted_by s = (Inl (NotFound_insight insight_id), s)"
  using assms by (simp add: promote_insight_to_task_def find_filter split: list.splits)

lemma promote_present:
  assumes "find (\<lambda>i. i_id i = insight_id) (workforce_insights s) = Some insight"
  shows "promote_insight_to_task env insight_id promoted_by s =
     (Inr (task_data (crt_task_id (pro_create env)) (crt_now (pro_create env))
             ((task_defaults (''[From Insight] '' @ take 100 (i_content insight)))
                \<lparr>f_description := Some (i_content insight),
                 f_assigned_by := promoted_by,
                 f_source := ''insight_promotion''\<rparr>)),
      (snd (create_task (pro_create env)
             ((task_defaults (''[From Insight] '' @ take 100 (i_content insight)))
                \<lparr>f_description := Some (i_content insight),
                 f_assigned_by := promoted_by,
                 f_source := ''insight_promotion''\<rparr>) s))
        \<lparr>workforce_insights :=
           map (\<lambda>i. if i_id i = insight_id
                     then i\<lparr>i_promoted_to_task_id := JStr (crt_task_id (pro_create env)),
                            i_promoted_at := Some (pro_now env)\<rparr>
                     else i)
             (workforce_insights s)\<rparr>)"
proof -
  from assms obtain rest where
    f: "filter (\<lambda>i. i_id i = insight_id) (workforce_insights s) = insight # rest"
    by (auto simp: find_filter split: list.splits)
  show ?thesis
    by (simp add: promote_insight_to_task_def f split_beta create_task_row task_data_fields)
qed

text \<open>
  Claim C6.  \<open>promote_insight_to_task\<close> raises \<open>NotFound\<close> and writes nothing when no
  insight has the given id.  The endpoint \<open>promote_insight\<close> raises \<open>Unauthorized\<close> and
  writes nothing unless the actor is \<open>jarvis\<close>, for whom it is the database operation.
  When the insight exists the operation returns a new task, appended to the tasks, whose
  description is the insight's content, whose source is \<open>insight_promotion\<close> and whose title
  is \<open>[From Insight] \<close> followed by the first hundred characters of the content; it then
  sets \<open>promoted_to_task_id\<close> of the insight to the new task's id and \<open>promoted_at\<close> to the
  time of the promotion.
\<close>

theorem promote_insight_creates_task:
  "(find (\<lambda>i. i_id i = insight_id) (workforce_insights s) = None \<longrightarrow>
      promote_insight_to_task env insight_id promoted_by s
        = (Inl (NotFound_insight insight_id), s))
   \<and> (actor \<noteq> ''jarvis'' \<longrightarrow>
        promote_insight env insight_id actor s = (Inl Unauthorized_promote, s))
   \<and> promote_insight env insight_id ''jarvis'' s
       = promote_insight_to_task env insight_id ''jarvis'' s
   \<and> (find (\<lambda>i. i_id i = insight_id) (workforce_insights s) = Some insight \<longrightarrow>
        (\<exists>task.
            fst (promote_insight_to_task env insight_id promoted_by s) = Inr task
          \<and> task ''id'' = Some (JStr (crt_task_id (pro_create env)))
          \<and> task ''title'' = Some (JStr (''[From Insight] '' @ take 100 (i_content insight)))
          \<and> task ''description'' = Some (JStr (i_content insight))
          \<and> task ''source'' = Some (JStr ''insight_promotion'')
          \<and> workforce_tasks (snd (promote_insight_to_task env insight_id promoted_by s))
              = workforce_tasks s @ [task]
          \<and> workforce_insights (snd (promote_insight_to_task env insight_id promoted_by s))
              = map (\<lambda>i. if i_id i = insight_id
                          then i\<lparr>i_promoted_to_task_id := JStr (crt_task_id (pro_create env)),
                                 i_promoted_at := Some (pro_now env)\<rparr>
                          else i)
                  (workforce_insights s)))"
proof (intro conjI impI)
  assume "find (\<lambda>i. i_id i = insight_id) (workforce_insights s) = None"
  then show "promote_insight_to_task env insight_id promoted_by s
        = (Inl (NotFound_insight insight_id), s)"
    by (rule promote_absent)
next
  assume "actor \<noteq> ''jarvis''"
  then show "promote_insight env insight_id actor s = (Inl Unauthorized_promote, s)"
    by (simp add: promote_insight_def)
next
  show "promote_insight env insight_id ''jarvis'' s
       = promote_insight_to_task env insight_id ''jarvis'' s"
    by (simp add: promote_insight_def)
next
  assume f: "find (\<lambda>i. i_id i = insight_id) (workforce_insights s) = Some insight"
  let ?args = "(task_defaults (''[From Insight] '' @ take 100 (i_content insight)))
                \<lparr>f_description := Some (i_content insight),
                 f_assigned_by := promoted_by,
                 f_source := ''insight_promotion''\<rparr>"
  let ?task = "task_data (crt_task_id (pro_create env)) (crt_now (pro_create env)) ?args"
  note p = promote_present [OF f, of env promoted_by]
  show "\<exists>task.
            fst (promote_insight_to_task env insight_id promoted_by s) = Inr task
          \<and> task ''id'' = Some (JStr (crt_task_id (pro_create env)))
          \<and> task ''title'' = Some (JStr (''[From Insight] '' @ take 100 (i_content insight)))
          \<and> task ''description'' = Some (JStr (i_content insight))
          \<and> task ''source'' = Some (JStr ''insight_promotion'')
          \<and> workforce_tasks (snd (promote_insight_to_task env insight_id promoted_by s))
              = workforce_tasks s @ [task]
          \<and> workforce_insights (snd (promote_insight_to_task env insight_id promoted_by s))
              = map (\<lambda>i. if i_id i = insight_id
                          then i\<lparr>i_promoted_to_task_id := JStr (crt_task_id (pro_create env)),
                                 i_promoted_at := Some (pro_now env)\<rparr>
                          else i)
                  (workforce_insights s)"
  proof (rule exI [where x = ?task], intro conjI)
    show "fst (promote_insight_to_task env insight_id promoted_by s) = Inr ?task"
      by (simp add: p)
    show "?task ''id'' = Some (JStr (crt_task_id (pro_create env)))"
      by (simp only: task_data_fields)
    show "?task ''title'' = Some (JStr (''[From Insight] '' @ take 100 (i_content insight)))"
      by (simp add: task_data_fields task_defaults_def)
    show "?task ''description'' = Some (JStr (i_content insight))"
      by (simp add: task_data_fields jopt_def)
    show "?task ''source'' = Some (JStr ''insight_promotion'')"
      by (simp add: task_data_fields)
    show "workforce_tasks (snd (promote_insight_to_task env insight_id promoted_by s))
              = workforce_tasks s @ [?task]"
      by (simp add: p create_task_row)
    show "workforce_insights (snd (promote_insight_to_task env insight_id promoted_by s))
              = map (\<lambda>i. if i_id i = insight_id
                          then i\<lparr>i_promoted_to_task_id := JStr (crt_task_id (pro_create env)),
                                 i_promoted_at := Some (pro_now env)\<rparr>
                          else i)
                  (workforce_insights s)"
      by (simp add: p)
  qed
qed

theorem promote_insight_creates_task_witness:
  "''alice'' \<noteq> ''jarvis''
   \<and> promote_insight example_promote_env ''i1'' ''alice'' example_insight_store
       = (Inl Unauthorized_promote, example_insight_store)
   \<and> find (\<lambda>i. i_id i = ''i9'') (workforce_insights example_insight_store) = None
   \<and> promote_insight_to_task example_promote_env ''i9'' ''jarvis'' example_insight_store
       = (Inl (NotFound_insight ''i9''), example_insight_store)
   \<and> find (\<lambda>i. i_id i = ''i1'') (workforce_insights example_insight_store) = Some example_insight
   \<and> (\<exists>task.
          fst (promote_insight_to_task example_promote_env ''i1'' ''jarvis'' example_insight_store)
            = Inr task
        \<and> task ''id'' = Some (JStr (crt_task_id (pro_create example_promote_env)))
        \<and> task ''title''
            = Some (JStr (''[From Insight] '' @ take 100 (i_content example_insight)))
        \<and> task ''description'' = Some (JStr (i_content example_insight))
        \<and> task ''source'' = Some (JStr ''insight_promotion'')
        \<and> workforce_tasks (snd (promote_insight_to_task example_promote_env ''i1'' ''jarvis''
                                   example_insight_store))
            = workforce_tasks example_insight_store @ [task]
        \<and> workforce_insights (snd (promote_insight_to_task example_promote_env ''i1'' ''jarvis''
                                      example_insight_store))
            = map (\<lambda>i. if i_id i = ''i1''
                        then i\<lparr>i_promoted_to_task_id
                                 := JStr (crt_task_id (pro_create example_promote_env)),
                               i_promoted_at := Some (pro_now example_promote_env)\<rparr>
                        else i)
                (workforce_insights example_insight_store))"
proof (intro conjI)
  have a: "''alice'' \<noteq> ''jarvis''" by simp
  have n: "find (\<lambda>i. i_id i = ''i9'') (workforce_insights example_insight_store) = None"
    by (simp add: example_insight_store_def example_insight_def)
  have f: "find (\<lambda>i. i_id i = ''i1'') (workforce_insights example_insight_store)
             = Some example_insight"
    by (simp add: example_insight_store_def example_insight_def)
  show "''alice'' \<noteq> ''jarvis''" by (rule a)
  show "promote_insight example_promote_env ''i1'' ''alice'' example_insight_store
       = (Inl Unauthorized_promote, example_insight_store)"
    by (rule promote_insight_creates_task
          [where actor = "''alice''" and env = example_promote_env and insight_id = "''i1''"
             and s = example_insight_store,
           THEN conjunct2, THEN conjunct1, THEN mp, OF a])
  show "find (\<lambda>i. i_id i = ''i9'') (workforce_insights example_insight_store) = None"
    by (rule n)
  show "promote_insight_to_task example_promote_env ''i9'' ''jarvis'' example_insight_store
       = (Inl (NotFound_insight ''i9''), example_insight_store)"
    by (rule promote_insight_creates_task
          [where env = example_promote_env and insight_id = "''i9''"
             and s = example_insight_store and promoted_by = "''jarvis''",
           THEN conjunct1, THEN mp, OF n])
  show "find (\<lambda>i. i_id i = ''i1'') (workforce_insights example_insight_store)
             = Some example_insight"
    by (rule f)
  show "\<exists>task.
          fst (promote_insight_to_task example_promote_env ''i1'' ''jarvis'' example_insight_store)
            = Inr task
        \<and> task ''id'' = Some (JStr (crt_task_id (pro_create example_promote_env)))
        \<and> task ''title''
            = Some (JStr (''[From Insight] '' @ take 100 (i_content example_insight)))
        \<and> task ''description'' = Some (JStr (i_content example_insight))
        \<and> task ''source'' = Some (JStr ''insight_promotion'')
        \<and> workforce_tasks (snd (promote_insight_to_task example_promote_env ''i1'' ''jarvis''
                                   example_insight_store))
            = workforce_tasks example_insight_store @ [task]
        \<and> workforce_insights (snd (promote_insight_to_task example_promote_env ''i1'' ''jarvis''
                                      example_insight_store))
            = map (\<lambda>i. if i_id i = ''i1''
                        then i\<lparr>i_promoted_to_task_id
                                 := JStr (crt_task_id (pro_create example_promote_env)),
                               i_promoted_at := Some (pro_now example_promote_env)\<rparr>
                        else i)
                (workforce_insights example_insight_store)"
    by (rule promote_insight_creates_task
          [where env = example_promote_env and insight_id = "''i1''"
             and s = example_insight_store and promoted_by = "''jarvis''"
             and insight = example_insight,
           THEN conjunct2, THEN conjunct2, THEN conjunct2, THEN mp, OF f])
qed

section \<open>The resolved autonomy mode\<close>

lemma sorted_le_last:
  "sorted zs \<Longrightarrow> z \<in> set zs \<Longrightarrow> z \<le> last (zs :: 'k::linorder list)"
  by (induction zs) auto

lemma order_desc_first:
  assumes "xs \<noteq> []"
  shows "\<exists>x rest. order_desc key xs = x # rest \<and> x \<in> set xs
           \<and> (\<forall>y \<in> set xs. key y \<le> key x)"
proof -
  let ?ys = "sort_key key xs"
  have ne: "?ys \<noteq> []" using assms by (metis length_sort list.size(3) length_0_conv)
  have s: "sorted (map key ?ys)" by (rule sorted_sort_key)
  have st: "set ?ys = set xs" by simp
  have mx: "\<forall>y \<in> set xs. key y \<le> key (last ?ys)"
  proof
    fix y assume "y \<in> set xs"
    then have "key y \<in> set (map key ?ys)" using st by simp
    with s have "key y \<le> last (map key ?ys)" by (rule sorted_le_last)
    then show "key y \<le> key (last ?ys)" using ne by (simp add: last_map)
  qed
  have "order_desc key xs = last ?ys # rev (butlast ?ys)"
  proof -
    have "rev ?ys = rev (butlast ?ys @ [last ?ys])" using ne by simp
    then show ?thesis by (simp add: order_desc_def)
  qed
  moreover have "last ?ys \<in> set xs" using ne st last_in_set by blast
  ultimately show ?thesis using mx by blast
qed

lemma autonomy_query_unscoped:
  "autonomy_query or_filter now None s =
     filter (\<lambda>x. s_starts_at x < now \<and> now < s_expires_at x \<and> s_revoked_at x = None)
       (workforce_autonomy_sessions s)"
  by (simp add: autonomy_query_def Let_def) (rule filter_cong, auto simp: active_at_def)

lemma autonomy_query_filter:
  assumes "case agent_id of None \<Rightarrow> True
           | Some a \<Rightarrow> a \<noteq> [] \<longrightarrow>
               (\<forall>x. or_filter (or_filter_text a) x
                      = (s_granted_to x = None \<or> s_granted_to x = Some a))"
  shows "autonomy_query or_filter now agent_id s =
     filter (\<lambda>x. s_starts_at x < now \<and> now < s_expires_at x \<and> s_revoked_at x = None
                \<and> (case agent_id of None \<Rightarrow> True
                    | Some a \<Rightarrow> a = [] \<or> s_granted_to x = None \<or> s_granted_to x = Some a))
       (workforce_autonomy_sessions s)"
  using assms
  by (cases agent_id)
     (auto simp: autonomy_query_def active_at_def Let_def intro: filter_cong)

lemma current_mode_empty:
  "autonomy_query or_filter now agent_id s = [] \<Longrightarrow>
   get_current_autonomy_mode or_filter now agent_id s = ''advisory''"
  by (simp add: get_current_autonomy_mode_def order_desc_def)

lemma current_mode_latest:
  assumes "autonomy_query or_filter now agent_id s \<noteq> []"
  shows "\<exists>x \<in> set (autonomy_query or_filter now agent_id s).
           get_current_autonomy_mode or_filter now agent_id s = s_mode x
           \<and> (\<forall>y \<in> set (autonomy_query or_filter now agent_id s).
                 s_created_at y \<le> s_created_at x)"
proof -
  from order_desc_first [OF assms, of s_created_at] obtain x rest where
    "order_desc s_created_at (autonomy_query or_filter now agent_id s) = x # rest"
    "x \<in> set (autonomy_query or_filter now agent_id s)"
    "\<forall>y \<in> set (autonomy_query or_filter now agent_id s). s_created_at y \<le> s_created_at x"
    by blast
  then show ?thesis
    by (auto simp: get_current_autonomy_mode_def)
qed

text \<open>
  The comma reading takes the filter text of an agent id without a comma for what the
  resolver means: granted to that agent, or to nobody.
\<close>

lemma split_on_no_separator: "c \<notin> set xs \<Longrightarrow> split_on c xs = [xs]"
  by (induction xs) auto

lemma split_on_separator:
  "c \<notin> set xs \<Longrightarrow> split_on c (xs @ c # ys) = xs # split_on c ys"
  by (induction xs) auto

lemma strip_prefix_append: "strip_prefix prefix (prefix @ rest) = Some rest"
  by (induction prefix) auto

lemma comma_or_filter_reads:
  assumes "CHR '','' \<notin> set a"
  shows "comma_or_filter (or_filter_text a) x
           = (s_granted_to x = None \<or> s_granted_to x = Some a)"
proof -
  have n: "CHR '','' \<notin> set (''granted_to.eq.'' @ a)"
    using assms by simp
  have t: "or_filter_text a = (''granted_to.eq.'' @ a) @ CHR '','' # ''granted_to.is.null''"
    by (simp add: or_filter_text_def)
  have parts: "split_on CHR '','' (or_filter_text a)
                 = [''granted_to.eq.'' @ a, ''granted_to.is.null'']"
    unfolding t by (simp only: split_on_separator [OF n]) (simp add: split_on_no_separator)
  have c1: "condition_holds (''granted_to.eq.'' @ a) x = (s_granted_to x = Some a)"
    using strip_prefix_append [of "''granted_to.eq.''" a]
    by (simp add: condition_holds_def)
  have c2: "condition_holds ''granted_to.is.null'' x = (s_granted_to x = None)"
    by (simp add: condition_holds_def)
  have e: "comma_or_filter (or_filter_text a) x
             = (condition_holds (''granted_to.eq.'' @ a) x
                \<or> condition_holds ''granted_to.is.null'' x)"
    by (simp only: comma_or_filter_def parts list_ex_Cons_iff list_ex_Nil_iff simp_thms)
  show ?thesis
    unfolding e c1 c2 by auto
qed


lemma example_granted_sessions:
  "workforce_autonomy_sessions example_granted_store =
     [\<lparr>s_id = ''s3'', s_mode = ''full_autonomy'', s_granted_by = ''hustler'',
       s_granted_to = None, s_reason = None, s_starts_at = 1000,
       s_expires_at = 3600001000, s_revoked_at = None, s_created_at = 1000\<rparr>]"
  by (simp add: example_granted_store_def grant_autonomy_def Let_def log_audit_def
        example_grant_env_def example_store_def)

lemma example_autonomy_sessions:
  "workforce_autonomy_sessions example_autonomy_store
     = [example_global_session, example_scoped_session]"
  by (simp add: example_autonomy_store_def)

lemma example_session_fields:
  "s_mode example_global_session = ''advisory''"
  "s_mode example_scoped_session = ''full_autonomy''"
  "s_created_at example_global_session = 10"
  "s_created_at example_scoped_session = 20"
  by (simp_all add: example_global_session_def example_scoped_session_def)

text \<open>
  Claim C3, as stated, fails in three ways.  At the first instant of a session: a session
  granted at \<open>now\<close> has \<open>starts_at = now\<close>, which lies in \<open>[starts_at, expires_at)\<close>, but the
  query asks for \<^verbatim>\<open>starts_at < now\<close> and the resolver answers with the default.  For the
  empty agent id: \<^verbatim>\<open>if agent_id:\<close> is false, no condition on \<open>granted_to\<close> is set and
  the session granted to agent \<open>A\<close> decides.  For an agent id with a comma, under the comma
  reading of the filter: the spliced text \<^verbatim>\<open>granted_to.eq.B,granted_to.eq.A,granted_to.is.null\<close>
  lets the session granted to \<open>A\<close> pass.
\<close>

theorem current_mode_counterexample:
  "spec_CurrentMode 1000 None example_granted_store = ''full_autonomy''
   \<and> get_current_autonomy_mode comma_or_filter 1000 None example_granted_store = ''advisory''
   \<and> spec_CurrentMode 50 (Some []) example_autonomy_store = ''advisory''
   \<and> get_current_autonomy_mode comma_or_filter 50 (Some []) example_autonomy_store
       = ''full_autonomy''
   \<and> spec_CurrentMode 50 (Some ''B,granted_to.eq.A'') example_autonomy_store = ''advisory''
   \<and> get_current_autonomy_mode comma_or_filter 50 (Some ''B,granted_to.eq.A'')
         example_autonomy_store
       = ''full_autonomy''"
proof (intro conjI)
  show "spec_CurrentMode 1000 None example_granted_store = ''full_autonomy''"
    by (simp add: spec_CurrentMode_def spec_considered_def order_desc_def
          example_granted_sessions)
  show "get_current_autonomy_mode comma_or_filter 1000 None example_granted_store = ''advisory''"
    by (simp add: get_current_autonomy_mode_def autonomy_query_def active_at_def order_desc_def
          example_granted_sessions)
  show "spec_CurrentMode 50 (Some []) example_autonomy_store = ''advisory''"
    by (simp add: spec_CurrentMode_def spec_considered_def order_desc_def
          example_autonomy_sessions example_global_session_def example_scoped_session_def)
  show "get_current_autonomy_mode comma_or_filter 50 (Some []) example_autonomy_store
       = ''full_autonomy''"
    by (simp add: get_current_autonomy_mode_def autonomy_query_def active_at_def order_desc_def
          example_autonomy_sessions example_global_session_def example_scoped_session_def)
  show "spec_CurrentMode 50 (Some ''B,granted_to.eq.A'') example_autonomy_store = ''advisory''"
    by (simp add: spec_CurrentMode_def spec_considered_def order_desc_def
          example_autonomy_sessions example_global_session_def example_scoped_session_def)
  show "get_current_autonomy_mode comma_or_filter 50 (Some ''B,granted_to.eq.A'')
         example_autonomy_store
       = ''full_autonomy''"
    by (simp add: get_current_autonomy_mode_def autonomy_query_def active_at_def order_desc_def
          comma_or_filter_def or_filter_text_def condition_holds_def
          example_autonomy_sessions example_global_session_def example_scoped_session_def)
qed


text \<open>
  Claim C3, amended.  Let the agent id be absent, empty, or such that the store reads the
  spliced filter text as meant: \<open>granted_to\<close> null or equal to the agent id, which is so
  for an id free of the characters the filter syntax reserves.  Then the sessions that
  \<open>get_current_autonomy_mode\<close> considers at \<open>now\<close> are exactly those with
  \<open>starts_at < now < expires_at\<close>, \<open>revoked_at\<close> unset, and, when a non-empty agent id is
  given, \<open>granted_to\<close> null or equal to it.  If there is none the mode is \<open>advisory\<close>;
  otherwise it is the mode of a considered session whose \<open>created_at\<close> no other considered
  session exceeds.
\<close>

theorem current_mode_latest_active_session:
  "(case agent_id of None \<Rightarrow> True
    | Some a \<Rightarrow> a \<noteq> [] \<longrightarrow>
        (\<forall>x. or_filter (or_filter_text a) x
               = (s_granted_to x = None \<or> s_granted_to x = Some a)))
   \<longrightarrow>
   (let considered =
          filter (\<lambda>x. s_starts_at x < now \<and> now < s_expires_at x \<and> s_revoked_at x = None
                     \<and> (case agent_id of None \<Rightarrow> True
                         | Some a \<Rightarrow> a = [] \<or> s_granted_to x = None \<or> s_granted_to x = Some a))
            (workforce_autonomy_sessions s)
    in (considered = [] \<longrightarrow>
          get_current_autonomy_mode or_filter now agent_id s = ''advisory'')
       \<and> (considered \<noteq> [] \<longrightarrow>
             (\<exists>x \<in> set considered.
                 get_current_autonomy_mode or_filter now agent_id s = s_mode x
                 \<and> (\<forall>y \<in> set considered. s_created_at y \<le> s_created_at x))))"
proof
  assume h: "case agent_id of None \<Rightarrow> True
    | Some a \<Rightarrow> a \<noteq> [] \<longrightarrow>
        (\<forall>x. or_filter (or_filter_text a) x
               = (s_granted_to x = None \<or> s_granted_to x = Some a))"
  show "let considered =
          filter (\<lambda>x. s_starts_at x < now \<and> now < s_expires_at x \<and> s_revoked_at x = None
                     \<and> (case agent_id of None \<Rightarrow> True
                         | Some a \<Rightarrow> a = [] \<or> s_granted_to x = None \<or> s_granted_to x = Some a))
            (workforce_autonomy_sessions s)
    in (considered = [] \<longrightarrow>
          get_current_autonomy_mode or_filter now agent_id s = ''advisory'')
       \<and> (considered \<noteq> [] \<longrightarrow>
             (\<exists>x \<in> set considered.
                 get_current_autonomy_mode or_filter now agent_id s = s_mode x
                 \<and> (\<forall>y \<in> set considered. s_created_at y \<le> s_created_at x)))"
    unfolding Let_def autonomy_query_filter [OF h, symmetric]
    using current_mode_empty current_mode_latest by blast
qed

lemma example_considered:
  "filter (\<lambda>x. s_starts_at x < 50 \<and> 50 < s_expires_at x \<and> s_revoked_at x = None
              \<and> (case Some ''A'' of None \<Rightarrow> True
                  | Some a \<Rightarrow> a = [] \<or> s_granted_to x = None \<or> s_granted_to x = Some a))
     (workforce_autonomy_sessions example_autonomy_store)
   = [example_global_session, example_scoped_session]"
  "filter (\<lambda>x. s_starts_at x < 50 \<and> 50 < s_expires_at x \<and> s_revoked_at x = None
              \<and> (case Some ''B'' of None \<Rightarrow> True
                  | Some a \<Rightarrow> a = [] \<or> s_granted_to x = None \<or> s_granted_to x = Some a))
     (workforce_autonomy_sessions example_autonomy_store)
   = [example_global_session]"
  "filter (\<lambda>x. s_starts_at x < 200 \<and> 200 < s_expires_at x \<and> s_revoked_at x = None
              \<and> (case Some ''A'' of None \<Rightarrow> True
                  | Some a \<Rightarrow> a = [] \<or> s_granted_to x = None \<or> s_granted_to x = Some a))
     (workforce_autonomy_sessions example_autonomy_store)
   = []"
  by (simp_all add: example_autonomy_store_def example_global_session_def
        example_scoped_session_def)

lemma example_reading:
  "case Some ''A'' of None \<Rightarrow> True
   | Some a \<Rightarrow> a \<noteq> [] \<longrightarrow>
       (\<forall>x. comma_or_filter (or_filter_text a) x
              = (s_granted_to x = None \<or> s_granted_to x = Some a))"
  "case Some ''B'' of None \<Rightarrow> True
   | Some a \<Rightarrow> a \<noteq> [] \<longrightarrow>
       (\<forall>x. comma_or_filter (or_filter_text a) x
              = (s_granted_to x = None \<or> s_granted_to x = Some a))"
  by (simp_all add: comma_or_filter_reads)

theorem current_mode_latest_active_session_witness:
  "comma_or_filter (or_filter_text ''A'') example_global_session
   \<and> comma_or_filter (or_filter_text ''A'') example_scoped_session
   \<and> comma_or_filter (or_filter_text ''B'') example_global_session
   \<and> \<not> comma_or_filter (or_filter_text ''B'') example_scoped_session
   \<and> filter (\<lambda>x. s_starts_at x < 50 \<and> 50 < s_expires_at x \<and> s_revoked_at x = None
              \<and> (case Some ''A'' of None \<Rightarrow> True
                  | Some a \<Rightarrow> a = [] \<or> s_granted_to x = None \<or> s_granted_to x = Some a))
       (workforce_autonomy_sessions example_autonomy_store)
       = [example_global_session, example_scoped_session]
   \<and> get_current_autonomy_mode comma_or_filter 50 (Some ''A'') example_autonomy_store
       = ''full_autonomy''
   \<and> filter (\<lambda>x. s_starts_at x < 50 \<and> 50 < s_expires_at x \<and> s_revoked_at x = None
              \<and> (case Some ''B'' of None \<Rightarrow> True
                  | Some a \<Rightarrow> a = [] \<or> s_granted_to x = None \<or> s_granted_to x = Some a))
       (workforce_autonomy_sessions example_autonomy_store)
       = [example_global_session]
   \<and> get_current_autonomy_mode comma_or_filter 50 (Some ''B'') example_autonomy_store
       = ''advisory''
   \<and> filter (\<lambda>x. s_starts_at x < 200 \<and> 200 < s_expires_at x \<and> s_revoked_at x = None
              \<and> (case Some ''A'' of None \<Rightarrow> True
                  | Some a \<Rightarrow> a = [] \<or> s_granted_to x = None \<or> s_granted_to x = Some a))
       (workforce_autonomy_sessions example_autonomy_store)
       = []
   \<and> get_current_autonomy_mode comma_or_filter 200 (Some ''A'') example_autonomy_store
       = ''advisory''"
proof -
  note a = current_mode_latest_active_session
             [where agent_id = "Some ''A''" and or_filter = comma_or_filter and now = 50
                and s = example_autonomy_store,
              THEN mp, OF example_reading(1)]
  note b = current_mode_latest_active_session
             [where agent_id = "Some ''B''" and or_filter = comma_or_filter and now = 50
                and s = example_autonomy_store,
              THEN mp, OF example_reading(2)]
  note c = current_mode_latest_active_session
             [where agent_id = "Some ''A''" and or_filter = comma_or_filter and now = 200
                and s = example_autonomy_store,
              THEN mp, OF example_reading(1)]
  have ma: "get_current_autonomy_mode comma_or_filter 50 (Some ''A'') example_autonomy_store
              = ''full_autonomy''"
    using a unfolding Let_def example_considered
    by (auto simp: example_session_fields)
  have mb: "get_current_autonomy_mode comma_or_filter 50 (Some ''B'') example_autonomy_store
              = ''advisory''"
    using b unfolding Let_def example_considered
    by (auto simp: example_session_fields)
  have mc: "get_current_autonomy_mode comma_or_filter 200 (Some ''A'') example_autonomy_store
              = ''advisory''"
    using c unfolding Let_def example_considered
    by simp
  have r: "comma_or_filter (or_filter_text ''A'') example_global_session"
    "comma_or_filter (or_filter_text ''A'') example_scoped_session"
    "comma_or_filter (or_filter_text ''B'') example_global_session"
    "\<not> comma_or_filter (or_filter_text ''B'') example_scoped_session"
    by (simp_all add: comma_or_filter_reads example_global_session_def
          example_scoped_session_def)
  from r example_considered ma mb mc show ?thesis
    by (intro conjI)
qed

text \<open>
  Claim C9.  Without an agent id the query applies no condition on \<open>granted_to\<close>: it
  considers every session with \<open>starts_at < now < expires_at\<close> that is not revoked.  Hence
  a session granted to a specific agent that is active and was created after every other
  active session gives the mode of the unscoped query.
\<close>

theorem unscoped_query_considers_scoped_sessions:
  "autonomy_query or_filter now None s =
     filter (\<lambda>x. s_starts_at x < now \<and> now < s_expires_at x \<and> s_revoked_at x = None)
       (workforce_autonomy_sessions s)
   \<and> (x \<in> set (workforce_autonomy_sessions s)
      \<and> s_starts_at x < now \<and> now < s_expires_at x \<and> s_revoked_at x = None
      \<and> s_granted_to x = Some a
      \<and> (\<forall>y \<in> set (workforce_autonomy_sessions s).
            s_starts_at y < now \<and> now < s_expires_at y \<and> s_revoked_at y = None \<and> y \<noteq> x
            \<longrightarrow> s_created_at y < s_created_at x)
      \<longrightarrow> get_current_autonomy_mode or_filter now None s = s_mode x)"
proof (intro conjI impI)
  show q: "autonomy_query or_filter now None s =
     filter (\<lambda>x. s_starts_at x < now \<and> now < s_expires_at x \<and> s_revoked_at x = None)
       (workforce_autonomy_sessions s)"
    by (rule autonomy_query_unscoped)
  assume h: "x \<in> set (workforce_autonomy_sessions s)
      \<and> s_starts_at x < now \<and> now < s_expires_at x \<and> s_revoked_at x = None
      \<and> s_granted_to x = Some a
      \<and> (\<forall>y \<in> set (workforce_autonomy_sessions s).
            s_starts_at y < now \<and> now < s_expires_at y \<and> s_revoked_at y = None \<and> y \<noteq> x
            \<longrightarrow> s_created_at y < s_created_at x)"
  then have xin: "x \<in> set (autonomy_query or_filter now None s)"
    by (simp add: q)
  then have "autonomy_query or_filter now None s \<noteq> []" by auto
  from current_mode_latest [OF this] obtain z where
    z: "z \<in> set (autonomy_query or_filter now None s)"
       "get_current_autonomy_mode or_filter now None s = s_mode z"
       "\<forall>y \<in> set (autonomy_query or_filter now None s). s_created_at y \<le> s_created_at z"
    by blast
  from z(3) xin have le: "s_created_at x \<le> s_created_at z" by blast
  have "z = x"
  proof (rule ccontr)
    assume "z \<noteq> x"
    with z(1) h have "s_created_at z < s_created_at x" by (simp add: q)
    with le show False by simp
  qed
  with z(2) show "get_current_autonomy_mode or_filter now None s = s_mode x" by simp
qed

theorem unscoped_query_considers_scoped_sessions_witness:
  "example_scoped_session \<in> set (workforce_autonomy_sessions example_autonomy_store)
   \<and> s_starts_at example_scoped_session < 50 \<and> 50 < s_expires_at example_scoped_session
   \<and> s_revoked_at example_scoped_session = None
   \<and> s_granted_to example_scoped_session = Some ''A''
   \<and> workforce_autonomy_sessions example_autonomy_store
       = [example_global_session, example_scoped_session]
   \<and> s_created_at example_global_session < s_created_at example_scoped_session
   \<and> get_current_autonomy_mode comma_or_filter 50 None example_autonomy_store
       = ''full_autonomy''"
proof -
  have h: "example_scoped_session \<in> set (workforce_autonomy_sessions example_autonomy_store)
   \<and> s_starts_at example_scoped_session < 50 \<and> 50 < s_expires_at example_scoped_session
   \<and> s_revoked_at example_scoped_session = None
   \<and> s_granted_to example_scoped_session = Some ''A''
   \<and> (\<forall>y \<in> set (workforce_autonomy_sessions example_autonomy_store).
         s_starts_at y < 50 \<and> 50 < s_expires_at y \<and> s_revoked_at y = None
         \<and> y \<noteq> example_scoped_session
         \<longrightarrow> s_created_at y < s_created_at example_scoped_session)"
    by (simp add: example_autonomy_store_def example_global_session_def
          example_scoped_session_def)
  have m: "get_current_autonomy_mode comma_or_filter 50 None example_autonomy_store
             = s_mode example_scoped_session"
    by (rule unscoped_query_considers_scoped_sessions
          [where or_filter = comma_or_filter and now = 50 and s = example_autonomy_store
             and x = example_scoped_session and a = "''A''",
           THEN conjunct2, THEN mp, OF h])
  from m have m': "get_current_autonomy_mode comma_or_filter 50 None example_autonomy_store
                     = ''full_autonomy''"
    by (simp only: example_session_fields)
  have l: "workforce_autonomy_sessions example_autonomy_store
       = [example_global_session, example_scoped_session]"
    by (simp add: example_autonomy_store_def)
  have c: "s_created_at example_global_session < s_created_at example_scoped_session"
    by (simp add: example_session_fields)
  from h l c m' show ?thesis
    by (elim conjE, intro conjI)
qed

end
